theory Spec2Isabelle
  imports Complex_Main
begin

section \<open>Rate limiter of the stdio and HTTP front-ends (rateLimiter.js)\<close>

text \<open>
  Timestamps are the millisecond values of \<open>Date.now()\<close>, modelled as integers.
  The \<open>users\<close> map of the class is a partial map from session ids to user data.
  An entry of the map is an object that the methods mutate in place, so every
  change made to \<open>userData\<close> is written back to the map in the model.
\<close>

record userData =
  requests :: "int list"
  resetTime :: int

record rateLimiter =
  requestsPerMinute :: int
  windowSizeMs :: int
  users :: "string \<rightharpoonup> userData"

record limitResult =
  allowed :: bool
  remaining :: int
  resultResetTime :: int
  requestCount :: nat
  limit :: int

definition newRateLimiter :: "int \<Rightarrow> int \<Rightarrow> rateLimiter" where
  "newRateLimiter rpm w = \<lparr>requestsPerMinute = rpm, windowSizeMs = w, users = Map.empty\<rparr>"

text \<open>
  \<open>getUserData\<close> reads the clock on its own (\<open>tg\<close>) when it creates an entry.
\<close>

definition getUserData :: "rateLimiter \<Rightarrow> string \<Rightarrow> int \<Rightarrow> rateLimiter \<times> userData" where
  "getUserData L sid tg =
     (case users L sid of
        None \<Rightarrow>
          (let u = \<lparr>requests = [], resetTime = tg + windowSizeMs L\<rparr>
           in (L\<lparr>users := (users L)(sid \<mapsto> u)\<rparr>, u))
      | Some u \<Rightarrow> (L, u))"

definition cleanOldRequests :: "rateLimiter \<Rightarrow> userData \<Rightarrow> int \<Rightarrow> userData" where
  "cleanOldRequests L u now =
     (let cutoff = now - windowSizeMs L;
          rs = filter (\<lambda>timestamp. timestamp > cutoff) (requests u)
      in if length rs = 0
         then \<lparr>requests = rs, resetTime = now + windowSizeMs L\<rparr>
         else \<lparr>requests = rs, resetTime = resetTime u\<rparr>)"

text \<open>
  \<open>checkLimit L sid now tg\<close>: \<open>now\<close> is the clock value read at the start of the
  method, \<open>tg\<close> the one read inside \<open>getUserData\<close>. The result is the limiter
  after the call and the returned object.
\<close>

definition checkLimit :: "rateLimiter \<Rightarrow> string \<Rightarrow> int \<Rightarrow> int \<Rightarrow> rateLimiter \<times> limitResult" where
  "checkLimit L sid now tg =
     (let (L1, u0) = getUserData L sid tg;
          u1 = cleanOldRequests L1 u0 now
      in if int (length (requests u1)) \<ge> requestsPerMinute L1
         then (L1\<lparr>users := (users L1)(sid \<mapsto> u1)\<rparr>,
               \<lparr>allowed = False, remaining = 0, resultResetTime = resetTime u1,
                requestCount = length (requests u1), limit = requestsPerMinute L1\<rparr>)
         else
           (let u2 = \<lparr>requests = requests u1 @ [now], resetTime = now + windowSizeMs L1\<rparr>
            in (L1\<lparr>users := (users L1)(sid \<mapsto> u2)\<rparr>,
                \<lparr>allowed = True,
                 remaining = requestsPerMinute L1 - int (length (requests u2)),
                 resultResetTime = resetTime u2,
                 requestCount = length (requests u2), limit = requestsPerMinute L1\<rparr>)))"

text \<open>The timestamps recorded for a session (none when the session is unknown).\<close>

definition sessionRequests :: "rateLimiter \<Rightarrow> string \<Rightarrow> int list" where
  "sessionRequests L sid = (case users L sid of None \<Rightarrow> [] | Some u \<Rightarrow> requests u)"


section \<open>Rate limiter of the edge worker (worker.js)\<close>

text \<open>
  \<open>Math.min\<close> of no arguments is \<open>Infinity\<close>, so the reset time of a denial is
  a number that may be infinite.
\<close>

datatype jsnum = Fin int | PosInfinity

fun mathMin :: "int list \<Rightarrow> jsnum" where
  "mathMin [] = PosInfinity"
| "mathMin (x # xs) = (case mathMin xs of PosInfinity \<Rightarrow> Fin x | Fin m \<Rightarrow> Fin (min x m))"

fun jsPlus :: "jsnum \<Rightarrow> int \<Rightarrow> jsnum" where
  "jsPlus (Fin a) b = Fin (a + b)"
| "jsPlus PosInfinity b = PosInfinity"

record workersRateLimiter =
  limitPerMinute :: int
  wRequests :: "string \<rightharpoonup> int list"

record workersLimitResult =
  wAllowed :: bool
  wRemaining :: int
  wResetTime :: jsnum
  wTotal :: int

definition newWorkersRateLimiter :: "int \<Rightarrow> workersRateLimiter" where
  "newWorkersRateLimiter n = \<lparr>limitPerMinute = n, wRequests = Map.empty\<rparr>"

definition recentRequests :: "workersRateLimiter \<Rightarrow> string \<Rightarrow> int \<Rightarrow> int list" where
  "recentRequests W sid now =
     (let windowStart = now - 60 * 1000;
          sessionReqs = (case wRequests W sid of None \<Rightarrow> [] | Some rs \<Rightarrow> rs)
      in filter (\<lambda>timestamp. timestamp > windowStart) sessionReqs)"

definition workersCheckLimit ::
  "workersRateLimiter \<Rightarrow> string \<Rightarrow> int \<Rightarrow> workersRateLimiter \<times> workersLimitResult" where
  "workersCheckLimit W sid now =
     (let recent = recentRequests W sid now
      in if int (length recent) \<ge> limitPerMinute W
         then (W, \<lparr>wAllowed = False, wRemaining = 0,
                   wResetTime = jsPlus (mathMin recent) (60 * 1000),
                   wTotal = limitPerMinute W\<rparr>)
         else
           (let recent2 = recent @ [now]
            in (W\<lparr>wRequests := (wRequests W)(sid \<mapsto> recent2)\<rparr>,
                \<lparr>wAllowed = True,
                 wRemaining = limitPerMinute W - int (length recent2),
                 wResetTime = Fin (now + 60 * 1000),
                 wTotal = limitPerMinute W\<rparr>)))"

text \<open>
  Example states used below: a limiter of limit 2 after two allowed requests at
  times 0 and 1000, a worker limiter of limit 1 after one allowed request, and a
  worker limiter of limit 2 after two allowed requests at times 0 and 1000.
\<close>

definition twoRecorded :: rateLimiter where
  "twoRecorded =
     fst (checkLimit (fst (checkLimit (newRateLimiter 2 60000) ''s'' 0 0)) ''s'' 1000 1000)"

definition oneRecorded :: workersRateLimiter where
  "oneRecorded = fst (workersCheckLimit (newWorkersRateLimiter 1) ''s'' 500)"

definition twoRecordedWorker :: workersRateLimiter where
  "twoRecordedWorker =
     fst (workersCheckLimit (fst (workersCheckLimit (newWorkersRateLimiter 2) ''s'' 0)) ''s'' 1000)"

section \<open>JavaScript values and string operations\<close>

text \<open>
  Tool arguments arrive as a JSON object. Its property values are modelled by the
  scalar JSON values; \<open>JUndefined\<close> is what reading an absent property gives.
  Numbers are integers. A string is a list of characters with codes below 256.
\<close>

datatype jsval = JUndefined | JNull | JBool bool | JNum int | JStr string

type_synonym jsobject = "(string \<times> jsval) list"

definition getProp :: "jsobject \<Rightarrow> string \<Rightarrow> jsval" where
  "getProp obj k = (case map_of obj k of None \<Rightarrow> JUndefined | Some v \<Rightarrow> v)"

fun truthy :: "jsval \<Rightarrow> bool" where
  "truthy JUndefined = False"
| "truthy JNull = False"
| "truthy (JBool b) = b"
| "truthy (JNum n) = (n \<noteq> 0)"
| "truthy (JStr s) = (s \<noteq> [])"

fun isString :: "jsval \<Rightarrow> bool" where
  "isString (JStr s) = True"
| "isString v = False"

text \<open>
  White space of \<open>\s\<close> and of \<open>trim\<close>: tab, line feed, vertical tab, form feed,
  carriage return, space and no-break space. The line terminators that \<open>.\<close> does
  not match are line feed and carriage return.
\<close>

definition isWhiteSpace :: "char \<Rightarrow> bool" where
  "isWhiteSpace c =
     (c = CHR 0x09 \<or> c = CHR 0x0A \<or> c = CHR 0x0B \<or> c = CHR 0x0C \<or> c = CHR 0x0D
      \<or> c = CHR 0x20 \<or> c = CHR 0xA0)"

definition isLineTerminator :: "char \<Rightarrow> bool" where
  "isLineTerminator c = (c = CHR 0x0A \<or> c = CHR 0x0D)"

definition isDigit :: "char \<Rightarrow> bool" where
  "isDigit c = (48 \<le> (of_char c :: nat) \<and> (of_char c :: nat) \<le> 57)"

definition digitValue :: "char \<Rightarrow> nat" where
  "digitValue c = of_char c - 48"

definition trim :: "string \<Rightarrow> string" where
  "trim s = rev (dropWhile isWhiteSpace (rev (dropWhile isWhiteSpace s)))"

text \<open>
  \<open>s.replace(/\s+/g, ' ')\<close>: every maximal run of white space becomes one space.
  The flag tells whether the previous character belonged to a run.
\<close>

fun collapseFrom :: "bool \<Rightarrow> string \<Rightarrow> string" where
  "collapseFrom inRun [] = []"
| "collapseFrom inRun (c # cs) =
     (if isWhiteSpace c
      then (if inRun then collapseFrom True cs else CHR '' '' # collapseFrom True cs)
      else c # collapseFrom False cs)"

definition collapseWhiteSpace :: "string \<Rightarrow> string" where
  "collapseWhiteSpace s = collapseFrom False s"

text \<open>
  \<open>s.split(re)\<close> for a regular expression \<open>re\<close> that matches the non-empty runs of
  the characters in \<open>P\<close> (\<open>/\s+/\<close>, \<open>/[.!?]+/\<close>); \<open>cur\<close> is the current piece,
  reversed. Empty pieces at both ends are kept, as in JavaScript.
\<close>

fun splitRunsFrom :: "(char \<Rightarrow> bool) \<Rightarrow> bool \<Rightarrow> string \<Rightarrow> string \<Rightarrow> string list" where
  "splitRunsFrom P inRun cur [] = [rev cur]"
| "splitRunsFrom P inRun cur (c # cs) =
     (if P c
      then (if inRun then splitRunsFrom P True [] cs
            else rev cur # splitRunsFrom P True [] cs)
      else splitRunsFrom P False (c # cur) cs)"

definition splitRuns :: "(char \<Rightarrow> bool) \<Rightarrow> string \<Rightarrow> string list" where
  "splitRuns P s = splitRunsFrom P False [] s"

text \<open>\<open>s.split(',')\<close>: split at every occurrence of one character.\<close>

fun splitCharFrom :: "char \<Rightarrow> string \<Rightarrow> string \<Rightarrow> string list" where
  "splitCharFrom sep cur [] = [rev cur]"
| "splitCharFrom sep cur (c # cs) =
     (if c = sep then rev cur # splitCharFrom sep [] cs
      else splitCharFrom sep (c # cur) cs)"

definition splitChar :: "char \<Rightarrow> string \<Rightarrow> string list" where
  "splitChar sep s = splitCharFrom sep [] s"

text \<open>\<open>toLowerCase\<close> on codes below 256: A to Z and the accented capitals.\<close>

definition lowerChar :: "char \<Rightarrow> char" where
  "lowerChar c =
     (let n = (of_char c :: nat)
      in if (65 \<le> n \<and> n \<le> 90) \<or> (192 \<le> n \<and> n \<le> 222 \<and> n \<noteq> 215)
         then char_of (n + 32) else c)"

definition toLowerCase :: "string \<Rightarrow> string" where
  "toLowerCase s = map lowerChar s"

text \<open>Decimal rendering of a number inside a template string.\<close>

definition digitChar :: "nat \<Rightarrow> char" where
  "digitChar d = ''0123456789'' ! d"

function showDigits :: "int \<Rightarrow> string" where
  "showDigits n =
     (if n < 10 then [digitChar (nat n)]
      else showDigits (n div 10) @ [digitChar (nat (n mod 10))])"
  by auto
termination
  by (relation "measure nat") auto

declare showDigits.simps [simp del]

definition showNat :: "nat \<Rightarrow> string" where
  "showNat n = showDigits (int n)"

definition showInt :: "int \<Rightarrow> string" where
  "showInt i = (if i < 0 then CHR ''-'' # showDigits (- i) else showDigits i)"

text \<open>
  \<open>parseInt(s)\<close> with no radix: leading white space is skipped, a sign is read,
  a prefix \<open>0x\<close> or \<open>0X\<close> selects hexadecimal digits, and the longest prefix of
  digits is converted; \<open>None\<close> is \<open>NaN\<close>.
\<close>

definition hexValue :: "char \<Rightarrow> nat option" where
  "hexValue c =
     (let n = (of_char c :: nat)
      in if 48 \<le> n \<and> n \<le> 57 then Some (n - 48)
         else if 65 \<le> n \<and> n \<le> 70 then Some (n - 55)
         else if 97 \<le> n \<and> n \<le> 102 then Some (n - 87)
         else None)"

definition digitsValue :: "nat \<Rightarrow> nat list \<Rightarrow> nat" where
  "digitsValue radix ds = foldl (\<lambda>acc d. acc * radix + d) 0 ds"

definition parseUnsigned :: "string \<Rightarrow> nat option" where
  "parseUnsigned s =
     (if length s \<ge> 2 \<and> s ! 0 = CHR ''0'' \<and> (s ! 1 = CHR ''x'' \<or> s ! 1 = CHR ''X'')
      then (let ds = takeWhile (\<lambda>c. hexValue c \<noteq> None) (drop 2 s)
            in if ds = [] then None
               else Some (digitsValue 16 (map (\<lambda>c. the (hexValue c)) ds)))
      else (let ds = takeWhile isDigit s
            in if ds = [] then None else Some (digitsValue 10 (map digitValue ds))))"

definition parseInt :: "string \<Rightarrow> int option" where
  "parseInt s =
     (let t = dropWhile isWhiteSpace s
      in case t of
           [] \<Rightarrow> None
         | c # cs \<Rightarrow>
             if c = CHR ''-'' then map_option (\<lambda>n. - int n) (parseUnsigned cs)
             else if c = CHR ''+'' then map_option int (parseUnsigned cs)
             else map_option int (parseUnsigned t))"

text \<open>
  \<open>parseInt(v)\<close> of a value: the value is converted to a string first. A number
  is an integer of magnitude below \<open>10^21\<close>, which is converted to its decimal
  digits and so read back as itself; the exponent notation of larger numbers is not
  modelled.
\<close>

fun parseIntValue :: "jsval \<Rightarrow> int option" where
  "parseIntValue (JStr s) = parseInt s"
| "parseIntValue (JNum n) = Some n"
| "parseIntValue v = None"

section \<open>Dates\<close>

text \<open>
  A \<open>Date\<close> holds a time value in milliseconds since the epoch, or \<open>NaN\<close>
  (\<open>None\<close>). Days are converted to and from calendar dates of the proleptic
  Gregorian calendar in UTC.
\<close>

definition msPerDay :: int where
  "msPerDay = 1000 * 60 * 60 * 24"

definition daysFromCivil :: "int \<Rightarrow> int \<Rightarrow> int \<Rightarrow> int" where
  "daysFromCivil y m d =
     (let y1 = (if m \<le> 2 then y - 1 else y);
          era = y1 div 400;
          yoe = y1 - era * 400;
          doy = (153 * (if m > 2 then m - 3 else m + 9) + 2) div 5 + d - 1;
          doe = yoe * 365 + yoe div 4 - yoe div 100 + doy
      in era * 146097 + doe - 719468)"

definition civilFromDays :: "int \<Rightarrow> int \<times> int \<times> int" where
  "civilFromDays z =
     (let z1 = z + 719468;
          era = z1 div 146097;
          doe = z1 - era * 146097;
          yoe = (doe - doe div 1460 + doe div 36524 - doe div 146096) div 365;
          doy = doe - (365 * yoe + yoe div 4 - yoe div 100);
          mp = (5 * doy + 2) div 153;
          d = doy - (153 * mp + 2) div 5 + 1;
          m = (if mp < 10 then mp + 3 else mp - 9);
          y = yoe + era * 400
      in (if m \<le> 2 then y + 1 else y, m, d))"

text \<open>
  The pattern \<open>/^\d{4}-\d{2}-\d{2}$/\<close> and the three numbers of a string that
  matches it (\<open>dateString.split('-').map(Number)\<close>).
\<close>

definition matchesDateRegex :: "string \<Rightarrow> bool" where
  "matchesDateRegex s =
     (length s = 10 \<and> s ! 4 = CHR ''-'' \<and> s ! 7 = CHR ''-''
      \<and> list_all isDigit (take 4 s) \<and> list_all isDigit (take 2 (drop 5 s))
      \<and> list_all isDigit (drop 8 s))"

definition dateFields :: "string \<Rightarrow> int \<times> int \<times> int" where
  "dateFields s =
     (int (digitsValue 10 (map digitValue (take 4 s))),
      int (digitsValue 10 (map digitValue (take 2 (drop 5 s)))),
      int (digitsValue 10 (map digitValue (drop 8 s))))"

text \<open>
  The time value of an ISO date \<open>YYYY-MM-DD\<close> (with or without the suffix
  \<open>T00:00:00.000Z\<close>): midnight UTC. The engine accepts months 1 to 12 and days 1
  to 31 and lets a day beyond the end of the month run into the next month.
\<close>

definition isoDateValue :: "string \<Rightarrow> int option" where
  "isoDateValue s =
     (case dateFields s of (y, m, d) \<Rightarrow>
        if 1 \<le> m \<and> m \<le> 12 \<and> 1 \<le> d \<and> d \<le> 31
        then Some ((daysFromCivil y m 1 + d - 1) * msPerDay) else None)"

text \<open>
  What the host provides: the parser of the engine for date strings that are not
  of the form \<open>YYYY-MM-DD\<close> (its result is implementation-defined), the time value
  of \<open>new Date(year, monthIndex, day)\<close> in the local time zone, the local year
  of the current time, and the renderings of a number and of a date in the locale
  of the host (\<open>toLocaleString\<close>, \<open>toLocaleDateString\<close>).
\<close>

record hostEnv =
  engineDateParse :: "string \<Rightarrow> int option"
  localDate :: "int \<Rightarrow> int \<Rightarrow> int \<Rightarrow> int"
  currentYear :: int
  numberToLocaleString :: "int \<Rightarrow> string"
  dateToLocaleDateString :: "int \<Rightarrow> string"

definition dateParse :: "hostEnv \<Rightarrow> string \<Rightarrow> int option" where
  "dateParse env s = (if matchesDateRegex s then isoDateValue s else engineDateParse env s)"

text \<open>\<open>new Date(v)\<close> for a value: a number is taken as the time value.\<close>

fun newDate :: "hostEnv \<Rightarrow> jsval \<Rightarrow> int option" where
  "newDate env (JStr s) = dateParse env s"
| "newDate env (JNum n) = (if \<bar>n\<bar> \<le> 8640000000000000 then Some n else None)"
| "newDate env (JBool b) = Some (if b then 1 else 0)"
| "newDate env JNull = Some 0"
| "newDate env JUndefined = None"

section \<open>Input validation (validator.js)\<close>

record validation =
  valid :: bool
  errors :: "string list"

text \<open>Every validator returns \<open>{ valid: errors.length === 0, errors }\<close>.\<close>

definition validationOf :: "string list \<Rightarrow> validation" where
  "validationOf errs = \<lparr>valid = (length errs = 0), errors = errs\<rparr>"

definition MIN_RESUME_LENGTH :: nat where
  "MIN_RESUME_LENGTH = 500"

definition MAX_RESUME_LENGTH :: nat where
  "MAX_RESUME_LENGTH = 15000"

definition VALID_SORT_OPTIONS :: "string list" where
  "VALID_SORT_OPTIONS = [''similarity'', ''date'']"

definition dq :: string where
  "dq = [CHR 0x22]"

definition tooShortMessage :: string where
  "tooShortMessage = ''Resume text is too short. Minimum '' @ showNat MIN_RESUME_LENGTH
     @ '' characters required''"

definition tooLongMessage :: string where
  "tooLongMessage = ''Resume text is too long. Maximum '' @ showNat MAX_RESUME_LENGTH
     @ '' characters allowed''"

definition validateRequiredParameters :: "jsobject \<Rightarrow> validation" where
  "validateRequiredParameters args =
     validationOf
       (if \<not> truthy (getProp args ''resume_text'') \<or> getProp args ''resume_text'' = JStr ''''
        then [''Resume text is required'']
        else if \<not> isString (getProp args ''resume_text'')
        then [''Resume text must be provided as a string'']
        else [])"

text \<open>
  The test of \<open>/(.)\1{20,}/\<close>: some character other than a line terminator is
  followed by at least 20 copies of itself.
\<close>

fun repeatedCharTest :: "string \<Rightarrow> bool" where
  "repeatedCharTest [] = False"
| "repeatedCharTest (c # cs) =
     ((\<not> isLineTerminator c \<and> length (takeWhile (\<lambda>x. x = c) cs) \<ge> 20)
      \<or> repeatedCharTest cs)"

definition normalizeText :: "string \<Rightarrow> string" where
  "normalizeText text = trim (collapseWhiteSpace text)"

definition wordsOf :: "string \<Rightarrow> string list" where
  "wordsOf normalizedText = filter (\<lambda>word. length word > 0) (splitRuns isWhiteSpace normalizedText)"

definition validateMeaningfulContent :: "string \<Rightarrow> validation" where
  "validateMeaningfulContent text =
     (let normalizedText = normalizeText text
      in if length normalizedText < MIN_RESUME_LENGTH
         then \<lparr>valid = False,
               errors = [''Resume text contains insufficient content (too much whitespace)'']\<rparr>
         else validationOf
           ((if repeatedCharTest text
             then [''Resume text contains suspicious repeated characters''] else [])
            @ (if length (wordsOf normalizedText) < 10
               then [''Resume text must contain at least 10 words''] else [])))"

text \<open>
  For a value that is not a string the property \<open>length\<close> is undefined or its
  access throws, and \<open>text.replace\<close> throws; the \<open>catch\<close> block of
  \<open>validateResumeText\<close> then records one error.
\<close>

fun validateResumeText :: "jsval \<Rightarrow> validation" where
  "validateResumeText (JStr resumeText) =
     validationOf
       ((if length resumeText < MIN_RESUME_LENGTH then [tooShortMessage] else [])
        @ (if length resumeText > MAX_RESUME_LENGTH then [tooLongMessage] else [])
        @ (let meaningfulValidation = validateMeaningfulContent resumeText
           in if \<not> valid meaningfulValidation then errors meaningfulValidation else []))"
| "validateResumeText v = validationOf [''Unable to validate resume text content'']"

fun validateUserExperience :: "jsval \<Rightarrow> validation" where
  "validateUserExperience (JStr experience) =
     validationOf
       (case parseInt experience of
          None \<Rightarrow> [''User experience must be a valid number'']
        | Some experienceNum \<Rightarrow>
            if experienceNum < 0 then [''User experience cannot be negative'']
            else if experienceNum > 50
            then [''User experience seems unusually high (maximum 50 years)'']
            else [])"
| "validateUserExperience v = \<lparr>valid = False, errors = [''User experience must be a string'']\<rparr>"

definition commaList :: "string \<Rightarrow> string list" where
  "commaList s = filter (\<lambda>k. length k > 0) (map trim (splitChar CHR '','' s))"

fun validateKeywords :: "jsval \<Rightarrow> validation" where
  "validateKeywords (JStr keywords) =
     (let keywordList = commaList keywords
      in validationOf
        ((if length keywords > 500
          then [''Keywords string is too long (maximum 500 characters)''] else [])
         @ (if length keywordList = 0
            then [''At least one keyword is required when keywords parameter is provided'']
            else if length keywordList > 50 then [''Too many keywords (maximum 50)'']
            else [])
         @ concat (map (\<lambda>keyword.
              if length keyword < 2
              then [''Keyword '' @ dq @ keyword @ dq @ '' is too short (minimum 2 characters)'']
              else if length keyword > 50
              then [''Keyword '' @ dq @ keyword @ dq @ '' is too long (maximum 50 characters)'']
              else []) keywordList)))"
| "validateKeywords v = \<lparr>valid = False, errors = [''Keywords must be a string'']\<rparr>"

fun validateLocation :: "jsval \<Rightarrow> validation" where
  "validateLocation (JStr location) =
     (let locationList = commaList location
      in validationOf
        ((if length location > 5000
          then [''Location string is too long (maximum 5000 characters)''] else [])
         @ (if length locationList = 0
            then [''At least one location is required when location parameter is provided'']
            else if length locationList > 100 then [''Too many locations (maximum 100)'']
            else [])
         @ concat (map (\<lambda>loc.
              if length loc < 2
              then [''Location '' @ dq @ loc @ dq @ '' is too short (minimum 2 characters)'']
              else if length loc > 50
              then [''Location '' @ dq @ loc @ dq @ '' is too long (maximum 50 characters)'']
              else []) locationList)))"
| "validateLocation v = \<lparr>valid = False, errors = [''Location must be a string'']\<rparr>"

text \<open>
  \<open>validateDate\<close>: the string is parsed with the suffix \<open>T00:00:00.000Z\<close> and the
  UTC year, month and day of the result are compared with the three numbers of
  the string. Comparisons with an invalid date are false.
\<close>

fun validateDate :: "hostEnv \<Rightarrow> jsval \<Rightarrow> string \<Rightarrow> validation" where
  "validateDate env (JStr dateString) fieldName =
     (if \<not> matchesDateRegex dateString
      then \<lparr>valid = False,
            errors = [fieldName @ '' must be in YYYY-MM-DD format (e.g., '' @ dq
                      @ ''2025-01-15'' @ dq @ '')'']\<rparr>
      else
        (let date = isoDateValue dateString;
             minDate = localDate env 2020 0 1;
             maxDate = localDate env (currentYear env + 2) 11 31
         in validationOf
           ((if (case date of None \<Rightarrow> True
                 | Some t \<Rightarrow> civilFromDays (t div msPerDay) \<noteq> dateFields dateString)
             then [fieldName @ '' is not a valid date''] else [])
            @ (case date of
                 None \<Rightarrow> []
               | Some t \<Rightarrow>
                   if t < minDate
                   then [fieldName @ '' is too far in the past (minimum: 2020-01-01)'']
                   else if t > maxDate
                   then [fieldName @ '' is too far in the future (maximum: ''
                         @ showInt (currentYear env + 2) @ ''-12-31)'']
                   else []))))"
| "validateDate env v fieldName = \<lparr>valid = False, errors = [fieldName @ '' must be a string'']\<rparr>"

text \<open>
  \<open>validateDateRange\<close>: both values go through \<open>new Date\<close>. The quotient
  \<open>(end - start) / msPerDay\<close> exceeds 365 exactly when the difference of the time
  values exceeds 365 days.
\<close>

definition validateDateRange :: "hostEnv \<Rightarrow> jsval \<Rightarrow> jsval \<Rightarrow> validation" where
  "validateDateRange env startDate endDate =
     (let start = newDate env startDate;
          end = newDate env endDate
      in validationOf
        ((case (start, end) of
            (Some a, Some b) \<Rightarrow> if a \<ge> b then [''Start date must be before end date''] else []
          | _ \<Rightarrow> [])
         @ (case (start, end) of
              (Some a, Some b) \<Rightarrow>
                if b - a > 365 * msPerDay then [''Date range is too long (maximum 1 year)'']
                else []
            | _ \<Rightarrow> [])))"

definition validatePage :: "jsval \<Rightarrow> validation" where
  "validatePage page =
     validationOf
       (case parseIntValue page of
          None \<Rightarrow> [''Page must be a valid number'']
        | Some pageNum \<Rightarrow>
            if pageNum < 1 then [''Page must be 1 or greater'']
            else if pageNum > 1000 then [''Page number is too high (maximum 1000)'']
            else [])"

fun validateSortBy :: "jsval \<Rightarrow> validation" where
  "validateSortBy (JStr sortBy) =
     validationOf
       (if toLowerCase sortBy \<notin> set VALID_SORT_OPTIONS
        then [''Sort_by must be one of: similarity, date''] else [])"
| "validateSortBy v = \<lparr>valid = False, errors = [''Sort_by must be a string'']\<rparr>"

text \<open>The errors that a validator contributes: \<open>if (!v.valid) errors.push(...v.errors)\<close>.\<close>

definition pushErrors :: "validation \<Rightarrow> string list" where
  "pushErrors v = (if \<not> valid v then errors v else [])"

definition provided :: "jsval \<Rightarrow> bool" where
  "provided v = (v \<noteq> JUndefined \<and> v \<noteq> JStr '''')"

definition validateOptionalParameters :: "hostEnv \<Rightarrow> jsobject \<Rightarrow> validation" where
  "validateOptionalParameters env args =
     validationOf
       ((if provided (getProp args ''user_experience'')
         then pushErrors (validateUserExperience (getProp args ''user_experience'')) else [])
        @ (if provided (getProp args ''keywords'')
           then pushErrors (validateKeywords (getProp args ''keywords'')) else [])
        @ (if provided (getProp args ''location'')
           then pushErrors (validateLocation (getProp args ''location'')) else [])
        @ (if provided (getProp args ''start_date'')
           then pushErrors (validateDate env (getProp args ''start_date'') ''start_date'') else [])
        @ (if provided (getProp args ''end_date'')
           then pushErrors (validateDate env (getProp args ''end_date'') ''end_date'') else [])
        @ (if truthy (getProp args ''start_date'') \<and> truthy (getProp args ''end_date'')
              \<and> getProp args ''start_date'' \<noteq> JStr '''' \<and> getProp args ''end_date'' \<noteq> JStr ''''
           then pushErrors (validateDateRange env (getProp args ''start_date'')
                              (getProp args ''end_date''))
           else [])
        @ (if getProp args ''page'' \<noteq> JUndefined
           then pushErrors (validatePage (getProp args ''page'')) else [])
        @ (if provided (getProp args ''sort_by'')
           then pushErrors (validateSortBy (getProp args ''sort_by'')) else []))"

text \<open>
  \<open>validateInputs\<close>. The argument object itself may be missing (\<open>None\<close>); reading
  a property of it then throws and the \<open>catch\<close> block answers.
\<close>

fun validateInputs :: "hostEnv \<Rightarrow> jsobject option \<Rightarrow> validation" where
  "validateInputs env None = \<lparr>valid = False, errors = [''Internal validation error occurred'']\<rparr>"
| "validateInputs env (Some args) =
     validationOf
       (pushErrors (validateRequiredParameters args)
        @ (if truthy (getProp args ''resume_text'')
           then pushErrors (validateResumeText (getProp args ''resume_text'')) else [])
        @ pushErrors (validateOptionalParameters env args))"

subsection \<open>The words of the claims about the resume text\<close>

text \<open>
  Two notions that the specification uses and the code does not compute as such:
  the length of the longest run of one character, and the words of a text, which
  are its maximal runs of characters other than white space.
\<close>

fun longestRun :: "string \<Rightarrow> nat" where
  "longestRun [] = 0"
| "longestRun (c # cs) = max (Suc (length (takeWhile (\<lambda>x. x = c) cs))) (longestRun cs)"

fun wordsFrom :: "string \<Rightarrow> string \<Rightarrow> string list" where
  "wordsFrom cur [] = (if cur = [] then [] else [rev cur])"
| "wordsFrom cur (c # cs) =
     (if isWhiteSpace c
      then (if cur = [] then wordsFrom [] cs else rev cur # wordsFrom [] cs)
      else wordsFrom (c # cur) cs)"

definition whitespaceDelimitedWords :: "string \<Rightarrow> string list" where
  "whitespaceDelimitedWords text = wordsFrom [] text"

text \<open>A host for the examples: UTC as the local time zone, the year 2025.\<close>

definition exampleEnv :: hostEnv where
  "exampleEnv = \<lparr>engineDateParse = (\<lambda>s. None),
                  localDate = (\<lambda>y m d. daysFromCivil y (m + 1) d * msPerDay),
                  currentYear = 2025,
                  numberToLocaleString = showInt,
                  dateToLocaleDateString = (\<lambda>t. ''a date'')\<rparr>"

text \<open>An example text of 600 characters: one hundred words, each followed by two spaces.\<close>

definition spacedText :: string where
  "spacedText = concat (replicate 100 ''abcd  '')"

text \<open>An example resume of 600 characters and one hundred words.\<close>

definition sampleResume :: string where
  "sampleResume = concat (replicate 100 ''skill '')"

section \<open>Text extraction from the job description (markdownFormatter.js)\<close>

text \<open>
  The regular expressions of the two extraction functions are written out as the
  functions below. A search tries the start positions from left to right and
  takes the first at which the expression matches.
\<close>

fun searchFirst :: "(string \<Rightarrow> 'a option) \<Rightarrow> string \<Rightarrow> 'a option" where
  "searchFirst f [] = f []"
| "searchFirst f (c # cs) = (case f (c # cs) of Some r \<Rightarrow> Some r | None \<Rightarrow> searchFirst f cs)"

text \<open>
  Matching with the flag \<open>i\<close> against a pattern of ASCII characters: a letter
  matches its upper-case and its lower-case form.
\<close>

definition asciiUpper :: "char \<Rightarrow> char" where
  "asciiUpper c =
     (let n = (of_char c :: nat) in if 97 \<le> n \<and> n \<le> 122 then char_of (n - 32) else c)"

fun stripPrefixCI :: "string \<Rightarrow> string \<Rightarrow> string option" where
  "stripPrefixCI [] s = Some s"
| "stripPrefixCI (p # ps) [] = None"
| "stripPrefixCI (p # ps) (c # cs) =
     (if asciiUpper p = asciiUpper c then stripPrefixCI ps cs else None)"

text \<open>
  After the marker comes \<open>\s*\<close> followed by a group of one or more characters
  that are not in \<open>stop\<close> (\<open>[^\n]+\<close> or \<open>.+\<close>). Both are greedy: the white space
  takes as many characters as it can, and gives characters back one at a time while
  the group cannot start; the group then runs up to the next \<open>stop\<close> character.
\<close>

definition captureGroup :: "(char \<Rightarrow> bool) \<Rightarrow> string \<Rightarrow> string option" where
  "captureGroup stop s =
     (case s of [] \<Rightarrow> None
      | c # cs \<Rightarrow> if stop c then None else Some (takeWhile (\<lambda>x. \<not> stop x) s))"

fun backtrackSpace :: "(char \<Rightarrow> bool) \<Rightarrow> nat \<Rightarrow> string \<Rightarrow> string option" where
  "backtrackSpace stop 0 rest = captureGroup stop rest"
| "backtrackSpace stop (Suc k) rest =
     (case captureGroup stop (drop (Suc k) rest) of
        Some g \<Rightarrow> Some g
      | None \<Rightarrow> backtrackSpace stop k rest)"

definition matchAfterMarker :: "string \<Rightarrow> (char \<Rightarrow> bool) \<Rightarrow> string \<Rightarrow> string option" where
  "matchAfterMarker marker stop s =
     (case stripPrefixCI marker s of
        None \<Rightarrow> None
      | Some rest \<Rightarrow> backtrackSpace stop (length (takeWhile isWhiteSpace rest)) rest)"

definition isNewline :: "char \<Rightarrow> bool" where
  "isNewline c = (c = CHR 0x0A)"

text \<open>\<open>chunkText.match(/Required Skills:\s*([^\n]+)/i)\<close>, the group of the match.\<close>

definition skillsMatch :: "string \<Rightarrow> string option" where
  "skillsMatch chunkText = searchFirst (matchAfterMarker ''Required Skills:'' isNewline) chunkText"

definition extractRequiredSkills :: "string \<Rightarrow> string list" where
  "extractRequiredSkills chunkText =
     (if chunkText = [] then []
      else case skillsMatch chunkText of
             Some g \<Rightarrow>
               filter (\<lambda>skill. length skill > 0 \<and> length skill < 50)
                 (map trim (splitChar CHR '','' g))
           | None \<Rightarrow> [])"

text \<open>\<open>chunkText.match(/Job Summary:\s*(.+)/i)\<close>, the group of the match.\<close>

definition summaryMatch :: "string \<Rightarrow> string option" where
  "summaryMatch chunkText = searchFirst (matchAfterMarker ''Job Summary:'' isLineTerminator) chunkText"

text \<open>
  \<open>Point\d+:\<close> at the start of a string: the marker and what follows it. With
  \<open>ci\<close> the word is matched without regard to case.
\<close>

definition pointMarker :: "bool \<Rightarrow> string \<Rightarrow> (string \<times> string) option" where
  "pointMarker ci s =
     (case (if ci then stripPrefixCI ''Point'' s
            else if take 5 s = ''Point'' then Some (drop 5 s) else None) of
        None \<Rightarrow> None
      | Some r \<Rightarrow>
          (let ds = takeWhile isDigit r; r2 = dropWhile isDigit r
           in if ds = [] then None
              else case r2 of
                     [] \<Rightarrow> None
                   | c # r3 \<Rightarrow> if c = CHR '':'' then Some (take 5 s @ ds @ '':'', r3) else None))"

text \<open>The lookahead \<open>(?=\s*Point\d+:|$)\<close>.\<close>

definition pointAhead :: "string \<Rightarrow> bool" where
  "pointAhead s = (pointMarker False (dropWhile isWhiteSpace s) \<noteq> None \<or> s = [])"

text \<open>
  The lazy \<open>[^]*?\<close>: the shortest run of characters after which the lookahead
  holds, and the rest of the string.
\<close>

fun lazyBody :: "string \<Rightarrow> string \<times> string" where
  "lazyBody [] = ([], [])"
| "lazyBody (c # cs) =
     (if pointAhead (c # cs) then ([], c # cs)
      else (case lazyBody cs of (b, r) \<Rightarrow> (c # b, r)))"

text \<open>
  One match of \<open>/Point\d+:\s*[^]*?(?=\s*Point\d+:|$)/\<close> at the start of a string:
  the matched text and the rest.
\<close>

definition pointMatchHere :: "string \<Rightarrow> (string \<times> string) option" where
  "pointMatchHere s =
     (case pointMarker False s of
        None \<Rightarrow> None
      | Some (m, rest) \<Rightarrow>
          (case lazyBody (dropWhile isWhiteSpace rest) of
             (b, r) \<Rightarrow> Some (m @ takeWhile isWhiteSpace rest @ b, r)))"

text \<open>
  All matches, with the flag \<open>g\<close>: the search goes on where the last match ended,
  so the characters of a match are skipped (\<open>skip\<close> counts those still to pass).
\<close>

fun pointMatchesFrom :: "nat \<Rightarrow> string \<Rightarrow> string list" where
  "pointMatchesFrom skip [] = []"
| "pointMatchesFrom skip (c # cs) =
     (if skip > 0 then pointMatchesFrom (skip - 1) cs
      else case pointMatchHere (c # cs) of
             None \<Rightarrow> pointMatchesFrom 0 cs
           | Some (m, r) \<Rightarrow> m # pointMatchesFrom (length m - 1) cs)"

definition pointMatches :: "string \<Rightarrow> string list" where
  "pointMatches s = pointMatchesFrom 0 s"

text \<open>\<open>point.replace(/Point\d+:\s*/i, '')\<close>: the first match is removed.\<close>

fun removePointMarker :: "string \<Rightarrow> string" where
  "removePointMarker [] = []"
| "removePointMarker (c # cs) =
     (case pointMarker True (c # cs) of
        Some (m, rest) \<Rightarrow> dropWhile isWhiteSpace rest
      | None \<Rightarrow> c # removePointMarker cs)"

definition isSentenceEnd :: "char \<Rightarrow> bool" where
  "isSentenceEnd c = (c = CHR ''.'' \<or> c = CHR ''!'' \<or> c = CHR ''?'')"

definition extractJobSummary :: "string \<Rightarrow> string list" where
  "extractJobSummary chunkText =
     (if chunkText = [] then []
      else case summaryMatch chunkText of
             None \<Rightarrow> []
           | Some summaryText \<Rightarrow>
               (let matches = pointMatches summaryText
                in if matches \<noteq> []
                   then filter (\<lambda>cleanPoint. cleanPoint \<noteq> [])
                          (map (\<lambda>point. trim (removePointMarker point)) matches)
                   else take 5 (filter (\<lambda>sentence. length sentence > 10)
                          (map trim (splitRuns isSentenceEnd summaryText)))))"

text \<open>
  The words of the claims about the extractions. The marker of a search occurs in
  a text when it starts at some position of the text, without regard to case.
\<close>

fun occursCI :: "string \<Rightarrow> string \<Rightarrow> bool" where
  "occursCI marker [] = (stripPrefixCI marker [] \<noteq> None)"
| "occursCI marker (c # cs) = (stripPrefixCI marker (c # cs) \<noteq> None \<or> occursCI marker cs)"

text \<open>
  A text in which the marker is first written as \<open>m\<close>, after \<open>pre\<close>, and is followed
  by the white space \<open>ws\<close> and the line \<open>line\<close>: the line starts with a character
  that is not white space and runs up to the first \<open>stop\<close> character or to the end
  of the text.
\<close>

definition markedLine ::
  "string \<Rightarrow> (char \<Rightarrow> bool) \<Rightarrow> string \<Rightarrow> string \<Rightarrow> string \<Rightarrow> string \<Rightarrow> string \<Rightarrow> bool" where
  "markedLine marker stop pre m ws line rest =
     (\<not> occursCI marker (pre @ butlast m)
      \<and> map asciiUpper m = map asciiUpper marker
      \<and> list_all isWhiteSpace ws
      \<and> line \<noteq> [] \<and> \<not> isWhiteSpace (hd line) \<and> list_all (\<lambda>c. \<not> stop c) line
      \<and> (rest = [] \<or> stop (hd rest)))"

text \<open>Example texts.\<close>

definition lineFeed :: string where
  "lineFeed = [CHR 0x0A]"

definition longSkill :: string where
  "longSkill = replicate 50 CHR ''x''"

definition twoLineSummary :: string where
  "twoLineSummary = ''Job Summary: Point1: Build APIs'' @ lineFeed @ ''Point2: Write tests''"

section \<open>Response transformation and Markdown rendering (markdownFormatter.js)\<close>

text \<open>
  The backend response, typed as the specification describes it. A field that may
  be absent is an option; \<open>similarity_score\<close> holds the exact value of the
  IEEE double of the JSON number. The pass-through fields of a match that no
  generator reads (\<open>locations\<close>, \<open>work_location\<close>, \<open>office_locations\<close>,
  \<open>remote_friendly\<close>, \<open>location_type\<close>, \<open>geographic_region\<close>,
  \<open>experience_details\<close>) are left out.
\<close>

record jobMatch =
  job_title :: "string option"
  company_name :: "string option"
  match_location :: "string option"
  similarity_score :: "rat option"
  job_link :: "string option"
  first_published :: "string option"
  min_experience_years :: "int option"
  salary :: "string option"
  job_type :: "string option"
  chunk_text :: "string option"

record resumeProcessing =
  filename :: string
  parsing_method :: string
  enhancement_used :: bool
  original_length :: int
  enhanced_length :: int

record backendResponse =
  matches :: "jobMatch list"
  total_matches :: int
  resp_page :: int
  total_pages :: int
  has_more :: bool
  extracted_skills :: "string list"
  user_experience :: jsval
  resume_processing :: "resumeProcessing option"
  resp_keywords :: jsval

text \<open>
  The transformed data. The fields \<open>jId\<close>, \<open>jTitle\<close>, \<dots> are the properties
  \<open>id\<close>, \<open>title\<close>, \<dots> of a transformed job; \<open>mTotal\<close>, \<dots> those of \<open>meta\<close>;
  \<open>pFilename\<close>, \<dots> those of \<open>processing\<close>.
\<close>

record normalizedJob =
  jId :: string
  jTitle :: string
  jCompany :: string
  jLocation :: string
  jMatch :: int
  jUrl :: string
  jPosted :: string
  jFirstPublishedAt :: string
  jExperience :: string
  jSalary :: string
  jJobType :: string
  jDescription :: string

record metaData =
  mTotal :: int
  mPage :: int
  mTotalPages :: int
  mHasMore :: bool
  mSkills :: "string list"
  mExperience :: jsval
  mQuota :: "int option"
  mKeywords :: jsval

record processingData =
  pFilename :: string
  pMethod :: string
  pEnhanced :: bool
  pOriginalLength :: int
  pEnhancedLength :: int

record transformed =
  tJobs :: "normalizedJob list"
  tMeta :: metaData
  tProcessing :: "processingData option"

subsection \<open>Numbers\<close>

text \<open>
  \<open>Math.round(x * 100)\<close> on doubles. The product of two doubles is the exact
  product rounded to the nearest double, ties to the even significand
  (53 bits, the exponent of the smallest normal number for smaller values; the
  products here stay far below the largest double). \<open>Math.round\<close> rounds a
  number to the nearest integer, ties upwards.
\<close>

function bitLength :: "int \<Rightarrow> int" where
  "bitLength n = (if n \<le> 0 then 0 else 1 + bitLength (n div 2))"
  by auto
termination
  by (relation "measure nat") auto

declare bitLength.simps [simp del]

definition twoPow :: "int \<Rightarrow> rat" where
  "twoPow e = (if e \<ge> 0 then 2 ^ nat e else 1 / 2 ^ nat (- e))"

definition binadeOf :: "rat \<Rightarrow> int" where
  "binadeOf x =
     (case quotient_of x of (p, q) \<Rightarrow>
        let d = bitLength p - bitLength q
        in if twoPow d \<le> x then d else d - 1)"

definition roundHalfEven :: "rat \<Rightarrow> int" where
  "roundHalfEven q =
     (let n = \<lfloor>q\<rfloor>; r = q - of_int n
      in if r < 1 / 2 then n else if r > 1 / 2 then n + 1 else if even n then n else n + 1)"

definition roundToDouble :: "rat \<Rightarrow> rat" where
  "roundToDouble x =
     (if x = 0 then 0
      else let a = \<bar>x\<bar>;
               e = max (binadeOf a) (- 1022);
               ulp = twoPow (e - 52)
           in sgn x * of_int (roundHalfEven (a / ulp)) * ulp)"

definition doubleTimes :: "rat \<Rightarrow> rat \<Rightarrow> rat" where
  "doubleTimes x y = roundToDouble (x * y)"

definition mathRound :: "rat \<Rightarrow> int" where
  "mathRound x = \<lfloor>x + 1 / 2\<rfloor>"

text \<open>\<open>Math.round((job.similarity_score || 0) * 100)\<close>.\<close>

definition matchPercent :: "rat option \<Rightarrow> int" where
  "matchPercent score =
     mathRound (doubleTimes (case score of None \<Rightarrow> 0 | Some x \<Rightarrow> x) 100)"

subsection \<open>Strings\<close>

definition nl :: string where
  "nl = [CHR 0x0A]"

text \<open>Characters beyond ASCII in the templates, as their UTF-8 bytes.\<close>

definition checkMark :: string where
  "checkMark = [CHR 0xE2, CHR 0x9C, CHR 0x93]" \<comment> \<open>U+2713\<close>

definition emojiBarChart :: string where
  "emojiBarChart = [CHR 0xF0, CHR 0x9F, CHR 0x93, CHR 0x8A]" \<comment> \<open>U+1F4CA\<close>

definition emojiBookmarkTabs :: string where
  "emojiBookmarkTabs = [CHR 0xF0, CHR 0x9F, CHR 0x93, CHR 0x91]" \<comment> \<open>U+1F4D1\<close>

definition emojiBriefcase :: string where
  "emojiBriefcase = [CHR 0xF0, CHR 0x9F, CHR 0x92, CHR 0xBC]" \<comment> \<open>U+1F4BC\<close>

definition emojiBulb :: string where
  "emojiBulb = [CHR 0xF0, CHR 0x9F, CHR 0x92, CHR 0xA1]" \<comment> \<open>U+1F4A1\<close>

definition emojiCalendar :: string where
  "emojiCalendar = [CHR 0xF0, CHR 0x9F, CHR 0x93, CHR 0x85]" \<comment> \<open>U+1F4C5\<close>

definition emojiCheck :: string where
  "emojiCheck = [CHR 0xE2, CHR 0x9C, CHR 0x85]" \<comment> \<open>U+2705\<close>

definition emojiClipboard :: string where
  "emojiClipboard = [CHR 0xF0, CHR 0x9F, CHR 0x93, CHR 0x8B]" \<comment> \<open>U+1F4CB\<close>

definition emojiGear :: string where
  "emojiGear = [CHR 0xE2, CHR 0x9A, CHR 0x99, CHR 0xEF, CHR 0xB8, CHR 0x8F]" \<comment> \<open>U+2699 U+FE0F\<close>

definition emojiLink :: string where
  "emojiLink = [CHR 0xF0, CHR 0x9F, CHR 0x94, CHR 0x97]" \<comment> \<open>U+1F517\<close>

definition emojiMagnifier :: string where
  "emojiMagnifier = [CHR 0xF0, CHR 0x9F, CHR 0x94, CHR 0x8D]" \<comment> \<open>U+1F50D\<close>

definition emojiMemo :: string where
  "emojiMemo = [CHR 0xF0, CHR 0x9F, CHR 0x93, CHR 0x9D]" \<comment> \<open>U+1F4DD\<close>

definition emojiOffice :: string where
  "emojiOffice = [CHR 0xF0, CHR 0x9F, CHR 0x8F, CHR 0xA2]" \<comment> \<open>U+1F3E2\<close>

definition emojiOfficeWorker :: string where
  "emojiOfficeWorker = [CHR 0xF0, CHR 0x9F, CHR 0x91, CHR 0xA8, CHR 0xE2, CHR 0x80, CHR 0x8D, CHR 0xF0, CHR 0x9F, CHR 0x92, CHR 0xBC]" \<comment> \<open>U+1F468 U+200D U+1F4BC\<close>

definition emojiPage :: string where
  "emojiPage = [CHR 0xF0, CHR 0x9F, CHR 0x93, CHR 0x84]" \<comment> \<open>U+1F4C4\<close>

definition emojiPin :: string where
  "emojiPin = [CHR 0xF0, CHR 0x9F, CHR 0x93, CHR 0x8D]" \<comment> \<open>U+1F4CD\<close>

definition emojiRobot :: string where
  "emojiRobot = [CHR 0xF0, CHR 0x9F, CHR 0xA4, CHR 0x96]" \<comment> \<open>U+1F916\<close>

definition emojiRocket :: string where
  "emojiRocket = [CHR 0xF0, CHR 0x9F, CHR 0x9A, CHR 0x80]" \<comment> \<open>U+1F680\<close>

definition emojiRuler :: string where
  "emojiRuler = [CHR 0xF0, CHR 0x9F, CHR 0x93, CHR 0x8F]" \<comment> \<open>U+1F4CF\<close>

definition emojiSatellite :: string where
  "emojiSatellite = [CHR 0xF0, CHR 0x9F, CHR 0x93, CHR 0xA1]" \<comment> \<open>U+1F4E1\<close>

definition emojiSparkles :: string where
  "emojiSparkles = [CHR 0xE2, CHR 0x9C, CHR 0xA8]" \<comment> \<open>U+2728\<close>

definition emojiStar :: string where
  "emojiStar = [CHR 0xF0, CHR 0x9F, CHR 0x8C, CHR 0x9F]" \<comment> \<open>U+1F31F\<close>

definition emojiTarget :: string where
  "emojiTarget = [CHR 0xF0, CHR 0x9F, CHR 0x8E, CHR 0xAF]" \<comment> \<open>U+1F3AF\<close>

definition emojiTools :: string where
  "emojiTools = [CHR 0xF0, CHR 0x9F, CHR 0x9B, CHR 0xA0, CHR 0xEF, CHR 0xB8, CHR 0x8F]" \<comment> \<open>U+1F6E0 U+FE0F\<close>

definition emojiWarning :: string where
  "emojiWarning = [CHR 0xE2, CHR 0x9A, CHR 0xA0, CHR 0xEF, CHR 0xB8, CHR 0x8F]" \<comment> \<open>U+26A0 U+FE0F\<close>

definition emojiWrench :: string where
  "emojiWrench = [CHR 0xF0, CHR 0x9F, CHR 0x94, CHR 0xA7]" \<comment> \<open>U+1F527\<close>

definition emojiZap :: string where
  "emojiZap = [CHR 0xE2, CHR 0x9A, CHR 0xA1]" \<comment> \<open>U+26A1\<close>

definition greenCircle :: string where
  "greenCircle = [CHR 0xF0, CHR 0x9F, CHR 0x9F, CHR 0xA2]" \<comment> \<open>U+1F7E2\<close>

definition orangeCircle :: string where
  "orangeCircle = [CHR 0xF0, CHR 0x9F, CHR 0x9F, CHR 0xA0]" \<comment> \<open>U+1F7E0\<close>

definition replacementCharacter :: string where
  "replacementCharacter = [CHR 0xEF, CHR 0xBF, CHR 0xBD]" \<comment> \<open>U+FFFD\<close>

definition yellowCircle :: string where
  "yellowCircle = [CHR 0xF0, CHR 0x9F, CHR 0x9F, CHR 0xA1]" \<comment> \<open>U+1F7E1\<close>


text \<open>\<open>v || d\<close> for a string that may be absent or empty.\<close>

definition orElse :: "string option \<Rightarrow> string \<Rightarrow> string" where
  "orElse v d = (case v of None \<Rightarrow> d | Some s \<Rightarrow> if s = [] then d else s)"

text \<open>A value inside a template string.\<close>

fun toText :: "jsval \<Rightarrow> string" where
  "toText (JStr s) = s"
| "toText (JNum n) = showInt n"
| "toText (JBool b) = (if b then ''true'' else ''false'')"
| "toText JNull = ''null''"
| "toText JUndefined = ''undefined''"

definition optText :: "string option \<Rightarrow> string" where
  "optText v = (case v of None \<Rightarrow> ''undefined'' | Some s \<Rightarrow> s)"

fun joinWith :: "string \<Rightarrow> string list \<Rightarrow> string" where
  "joinWith sep [] = []"
| "joinWith sep [x] = x"
| "joinWith sep (x # y # ys) = x @ sep @ joinWith sep (y # ys)"

text \<open>\<open>s.replace(/\s+/g, '_')\<close>.\<close>

fun underscoreFrom :: "bool \<Rightarrow> string \<Rightarrow> string" where
  "underscoreFrom inRun [] = []"
| "underscoreFrom inRun (c # cs) =
     (if isWhiteSpace c
      then (if inRun then underscoreFrom True cs else CHR ''_'' # underscoreFrom True cs)
      else c # underscoreFrom False cs)"

subsection \<open>Utility functions\<close>

definition generateJobId :: "jobMatch \<Rightarrow> nat \<Rightarrow> string" where
  "generateJobId job index =
     (let baseId =
            (case job_link job of
               Some link \<Rightarrow>
                 if link \<noteq> [] then last (splitChar CHR ''/'' link)
                 else toLowerCase (underscoreFrom False
                        (optText (company_name job) @ ''_'' @ optText (job_title job)))
             | None \<Rightarrow>
                 toLowerCase (underscoreFrom False
                   (optText (company_name job) @ ''_'' @ optText (job_title job))))
      in ''job_'' @ baseId @ ''_'' @ showNat index)"

text \<open>
  \<open>formatDate\<close>. \<open>new Date\<close> does not throw: for a string that cannot be parsed
  it gives an invalid date, every comparison with the resulting \<open>NaN\<close> is false,
  and the last \<open>return\<close> renders the invalid date with \<open>toLocaleDateString\<close>,
  whose result for an invalid date is the text \<open>Invalid Date\<close>. The clock is read
  once per rendering (\<open>now\<close>).
\<close>

definition formatDate :: "hostEnv \<Rightarrow> int \<Rightarrow> string option \<Rightarrow> string" where
  "formatDate env now dateString =
     (case dateString of
        None \<Rightarrow> ''Recently posted''
      | Some s \<Rightarrow>
          if s = [] then ''Recently posted''
          else
            (case dateParse env s of
               None \<Rightarrow> ''Invalid Date''
             | Some date \<Rightarrow>
                 (let diffTime = \<bar>now - date\<bar>;
                      diffDays = diffTime div msPerDay
                  in if diffDays = 0 then ''Today''
                     else if diffDays = 1 then ''Yesterday''
                     else if diffDays < 7 then showInt diffDays @ '' days ago''
                     else if diffDays < 30 then showInt (diffDays div 7) @ '' weeks ago''
                     else if diffDays < 365 then showInt (diffDays div 30) @ '' months ago''
                     else dateToLocaleDateString env date)))"

subsection \<open>Transformation\<close>

definition transformJob :: "hostEnv \<Rightarrow> int \<Rightarrow> nat \<Rightarrow> jobMatch \<Rightarrow> normalizedJob" where
  "transformJob env now index job =
     \<lparr>jId = generateJobId job index,
      jTitle = orElse (job_title job) ''Job Title Not Available'',
      jCompany = orElse (company_name job) ''Company Not Specified'',
      jLocation = orElse (match_location job) ''Location Not Specified'',
      jMatch = matchPercent (similarity_score job),
      jUrl = orElse (job_link job) ''#'',
      jPosted = formatDate env now (first_published job),
      jFirstPublishedAt = formatDate env now (first_published job),
      jExperience =
        (case min_experience_years job of
           None \<Rightarrow> ''Not specified''
         | Some y \<Rightarrow> if y = 0 then ''Not specified'' else showInt y @ '' years''),
      jSalary = orElse (salary job) ''Salary not specified'',
      jJobType = orElse (job_type job) ''Job type not specified'',
      jDescription = orElse (chunk_text job) ''No description available''\<rparr>"

definition transformJobData :: "hostEnv \<Rightarrow> int \<Rightarrow> backendResponse \<Rightarrow> int option \<Rightarrow> transformed" where
  "transformJobData env now backendData remainingQuota =
     \<lparr>tJobs = map (\<lambda>(index, job). transformJob env now index job)
                (enumerate 0 (matches backendData)),
      tMeta = \<lparr>mTotal = total_matches backendData,
               mPage = resp_page backendData,
               mTotalPages = total_pages backendData,
               mHasMore = has_more backendData,
               mSkills = extracted_skills backendData,
               mExperience = user_experience backendData,
               mQuota = remainingQuota,
               mKeywords = resp_keywords backendData\<rparr>,
      tProcessing =
        (case resume_processing backendData of
           None \<Rightarrow> None
         | Some rp \<Rightarrow>
             Some \<lparr>pFilename = filename rp,
                   pMethod = parsing_method rp,
                   pEnhanced = enhancement_used rp,
                   pOriginalLength = original_length rp,
                   pEnhancedLength = enhanced_length rp\<rparr>)\<rparr>"

subsection \<open>The three documents\<close>

definition skillBadgesOf :: "string list \<Rightarrow> string" where
  "skillBadgesOf skills = joinWith '' '' (map (\<lambda>skill. [CHR 0x60] @ skill
    @ [CHR 0x60]) skills)"

definition summaryRows :: "hostEnv \<Rightarrow> metaData \<Rightarrow> string" where
  "summaryRows env meta =
     concat
       [''| '' @ emojiTarget @ '' **Total Matches** | **''
         @ numberToLocaleString env (mTotal meta) @ '' Job Opportunities** |'' @ nl,
        (if truthy (mExperience meta) then ''| '' @ emojiOfficeWorker
          @ '' **Experience Level** | '' @ toText (mExperience meta) @ '' years |''
          @ nl else []),
        (if mSkills meta \<noteq> [] then ''| '' @ emojiTools @ '' **Detected Skills** | ''
          @ skillBadgesOf (mSkills meta) @ '' |'' @ nl else [])]"

definition processingTable :: "hostEnv \<Rightarrow> processingData option \<Rightarrow> string" where
  "processingTable env processing =
     (case processing of
        None \<Rightarrow> []
      | Some p \<Rightarrow>
          concat
            [''## '' @ emojiBarChart @ '' Resume Processing Summary'' @ nl
              @ nl, ''| Processing Info | Details |'' @ nl, ''|----------------|----------|''
              @ nl, ''| **'' @ emojiPage @ '' File** | '' @ pFilename p @ '' |'' @ nl, ''| **''
              @ emojiGear @ '' Method** | '' @ pMethod p @ '' |'' @ nl, ''| **'' @ emojiSparkles
              @ '' Enhancement** | '' @ (if pEnhanced p then emojiCheck
              @ '' Enhanced'' else emojiWarning @ '' Standard'') @ '' |'' @ nl,
             (if pOriginalLength p \<noteq> 0 \<and> pEnhancedLength p \<noteq> 0
              then ''| **'' @ emojiRuler @ '' Original Length** | ''
                @ numberToLocaleString env (pOriginalLength p) @ '' characters |'' @ nl
                @ ''| **'' @ emojiRuler @ '' Enhanced Length** | ''
                @ numberToLocaleString env (pEnhancedLength p) @ '' characters |''
                @ nl else []),
             nl])"

definition metadataRows :: "hostEnv \<Rightarrow> metaData \<Rightarrow> string" where
  "metadataRows env meta =
     concat
       [''> | **'' @ emojiBarChart @ '' Total Matches** | ''
         @ numberToLocaleString env (mTotal meta) @ '' opportunities |''
         @ nl, ''> | ** Has More Results** | '' @ (if mHasMore meta then ''Yes'' else ''No'')
         @ '' |'' @ nl,
        (if truthy (mExperience meta) then ''> | **'' @ emojiOfficeWorker
          @ '' Experience Level** | '' @ toText (mExperience meta) @ '' years |'' @ nl else []),
        (if mSkills meta \<noteq> [] then ''> | **'' @ emojiTarget @ '' Skills Detected** | ''
          @ showNat (length (mSkills meta)) @ '' skills identified |'' @ nl else [])]"

text \<open>The indicator of a row of the index table in the table-only document.\<close>

definition tableMatchColor :: "int \<Rightarrow> string" where
  "tableMatchColor m = (if m \<ge> 70 then greenCircle else if m \<ge> 40 then yellowCircle else orangeCircle)"

text \<open>The indicators of the full document: in its index table and in its job sections.\<close>

definition fullIndexMatchColor :: "int \<Rightarrow> string" where
  "fullIndexMatchColor m = (if m \<ge> 70 then greenCircle else if m \<ge> 40 then replacementCharacter else orangeCircle)"

definition detailMatchColor :: "int \<Rightarrow> string" where
  "detailMatchColor m = (if m \<ge> 70 then replacementCharacter else if m \<ge> 40 then yellowCircle else orangeCircle)"

definition tableRow :: "nat \<Rightarrow> normalizedJob \<Rightarrow> string" where
  "tableRow index job = ''| '' @ showNat (index + 1) @ '' | '' @ emojiOffice @ '' **''
    @ jCompany job @ ''** | '' @ jTitle job @ '' | '' @ tableMatchColor (jMatch job) @ '' **''
    @ showInt (jMatch job) @ ''%** | '' @ jLocation job @ '' | '' @ jExperience job @ '' | ''
    @ jFirstPublishedAt job @ '' | ['' @ emojiRocket @ '' **Apply Now**]('' @ jUrl job @ '') |''
    @ nl"

definition fullIndexRow :: "nat \<Rightarrow> normalizedJob \<Rightarrow> string" where
  "fullIndexRow index job = ''| '' @ showNat (index + 1) @ '' | '' @ emojiOffice @ '' **''
    @ jCompany job @ ''** | '' @ jTitle job @ '' | '' @ fullIndexMatchColor (jMatch job)
    @ '' **'' @ showInt (jMatch job) @ ''%** | '' @ jLocation job @ '' | '' @ jExperience job
    @ '' | ['' @ replacementCharacter @ '' **Apply**]('' @ jUrl job @ '') |'' @ nl"

definition jobSection :: "nat \<Rightarrow> normalizedJob \<Rightarrow> string" where
  "jobSection index job =
     (let skillsFromDescription = extractRequiredSkills (jDescription job);
          jobSummary = extractJobSummary (jDescription job)
      in concat
           [''## '' @ showNat (index + 1) @ ''. '' @ emojiOffice @ '' '' @ jCompany job
             @ '' - '' @ jTitle job @ nl @ nl, ''| **Detail** | **Information** |''
             @ nl, ''|------------|------------------|'' @ nl, ''| '' @ emojiTarget
             @ '' **Match Score** | '' @ detailMatchColor (jMatch job) @ '' **''
             @ showInt (jMatch job) @ ''%** |'' @ nl, ''| '' @ emojiBriefcase
             @ '' **Experience Required** | '' @ jExperience job @ '' |'' @ nl, ''| ''
             @ emojiPin @ '' **Location** | '' @ jLocation job @ '' |'' @ nl, ''| ''
             @ emojiCalendar @ '' **First Published At** | '' @ jFirstPublishedAt job @ '' |''
             @ nl, ''| '' @ emojiLink @ '' **Apply** | [**Apply Now**]('' @ jUrl job @ '') |''
             @ nl @ nl,
            (if skillsFromDescription \<noteq> []
             then (let skillBadges =
                         joinWith '' '' (map (\<lambda>skill. [CHR 0x60] @ trim skill
                           @ [CHR 0x60]) skillsFromDescription)
                   in ''### '' @ emojiTools @ '' Required Skills'' @ nl @ skillBadges @ nl @ nl)
             else []),
            (if jobSummary \<noteq> []
             then ''### '' @ emojiClipboard @ '' Job Highlights'' @ nl
               @ concat (map (\<lambda>point. ''- '' @ emojiCheck @ '' '' @ point
               @ nl) jobSummary) @ nl
             else []),
            ''---'' @ nl @ nl])"

definition generateJobMatcherMarkdown :: "hostEnv \<Rightarrow> transformed \<Rightarrow> string" where
  "generateJobMatcherMarkdown env data =
     (let jobs = tJobs data; meta = tMeta data; processing = tProcessing data
      in concat
           [''# '' @ emojiTarget @ '' Job Search Results Dashboard'' @ nl @ nl, ''## ''
             @ emojiBarChart @ '' Search Summary'' @ nl @ nl, ''| **Metric** | **Value** |''
             @ nl, ''|------------|-----------|'' @ nl,
            summaryRows env meta, nl,
            (if jobs \<noteq> []
             then concat
                    [''## '' @ emojiBookmarkTabs @ '' Job Opportunities Index'' @ nl
                      @ nl, ''| **#** | **Company** | **Position** | **Score** | **Location** | **Experience** | **First Published At** | **Apply** |''
                      @ nl, ''|-------|-------------|--------------|-----------|--------------|----------------|---------------------|-----------|''
                      @ nl,
                     concat (map (\<lambda>(index, job). fullIndexRow index job) (enumerate 0 jobs)),
                     nl @ ''---'' @ nl @ nl]
             else []),
            concat (map (\<lambda>(index, job). jobSection index job) (enumerate 0 jobs)),
            processingTable env processing,
            ''## '' @ emojiRocket @ '' Backend Response Metadata'' @ nl @ nl, ''> ### ''
              @ emojiSatellite @ '' **API Response Details**'' @ nl, ''> ''
              @ nl, ''> | Metadata | Value |'' @ nl, ''> |----------|-------|'' @ nl,
            metadataRows env meta,
            ''> '' @ nl, ''> *'' @ emojiWrench
              @ '' Powered by Backend API - Real-time job matching*'' @ nl @ nl, ''---'' @ nl
              @ nl, ''*Job Matcher v1.0 - Enhanced Backend Integration*''])"

definition generateJobIndexTableMarkdown :: "hostEnv \<Rightarrow> transformed \<Rightarrow> string" where
  "generateJobIndexTableMarkdown env data =
     (let jobs = tJobs data; meta = tMeta data; processing = tProcessing data
      in concat
           [''# '' @ emojiTarget @ '' Job Opportunities to Apply'' @ nl @ nl, ''## ''
             @ emojiBarChart @ '' Search Summary'' @ nl @ nl, ''| **Metric** | **Value** |''
             @ nl, ''|------------|-----------|'' @ nl,
            summaryRows env meta, nl,
            (if jobs \<noteq> []
             then concat
                    [''## '' @ emojiClipboard @ '' Jobs Ready to Apply'' @ nl
                      @ nl, ''| **#** | **Company** | **Position** | **Score** | **Location** | **Experience** | **First Published At** | **Apply** |''
                      @ nl, ''|-------|-------------|--------------|-----------|--------------|----------------|---------------------|-----------|''
                      @ nl,
                     concat (map (\<lambda>(index, job). tableRow index job) (enumerate 0 jobs)),
                     nl]
             else []),
            processingTable env processing,
            ''## '' @ emojiRocket @ '' Backend Response Metadata'' @ nl @ nl, ''> ### ''
              @ emojiSatellite @ '' **API Response Details**'' @ nl, ''> ''
              @ nl, ''> | Metadata | Value |'' @ nl, ''> |----------|-------|'' @ nl,
            metadataRows env meta,
            ''> '' @ nl, ''> *'' @ emojiWrench
              @ '' Powered by Backend API - Ready-to-Apply Job Index*'' @ nl @ nl, ''---'' @ nl
              @ nl, ''*Job Index Table v1.0 - Quick Apply Mode*''])"

definition generateNoMatchesMarkdown :: "transformed \<Rightarrow> string" where
  "generateNoMatchesMarkdown data =
     (let meta = tMeta data; processing = tProcessing data
      in concat
           [''# '' @ emojiMagnifier @ '' No Job Matches Found'' @ nl
             @ nl, ''Unfortunately, no job opportunities match your current search criteria.''
             @ nl @ nl,
            (case mQuota meta of None \<Rightarrow> [] | Some quota \<Rightarrow> ''**API Requests Remaining:** ''
              @ showInt quota @ nl @ nl),
            (if mSkills meta \<noteq> [] then ''## '' @ emojiStar
              @ '' Skills Detected in Your Resume'' @ nl @ nl @ joinWith '', '' (mSkills meta)
              @ nl @ nl else []),
            ''---'' @ nl @ nl,
            ''## '' @ emojiWarning @ '' Possible Issues'' @ nl @ nl
              @ ''- Very specific location filters'' @ nl @ ''- Narrow date range constraints''
              @ nl @ ''- Highly specialized skill requirements'' @ nl
              @ ''- Resume optimization may be needed'' @ nl @ nl,
            ''## '' @ emojiBulb @ '' Troubleshooting Tips'' @ nl @ nl @ ''- '' @ checkMark
              @ '' Expand to nearby locations'' @ nl @ ''- '' @ checkMark
              @ '' Remove restrictive filters'' @ nl @ ''- '' @ checkMark
              @ '' Try different keywords'' @ nl @ ''- '' @ checkMark
              @ '' Consider related job titles'' @ nl @ ''- '' @ checkMark
              @ '' Broaden your search criteria'' @ nl @ nl,
            (case processing of
               None \<Rightarrow> []
             | Some p \<Rightarrow>
                 concat
                   [''## '' @ emojiBarChart @ '' Resume Processing Details'' @ nl
                     @ nl, ''**File:** '' @ pFilename p @ nl @ nl, ''**Processing Method:** ''
                     @ pMethod p @ nl @ nl, ''**Enhancement Used:** ''
                     @ (if pEnhanced p then emojiCheck @ '' Enhanced'' else emojiWarning
                     @ '' Standard'') @ nl @ nl,
                    (if pOriginalLength p \<noteq> 0 \<and> pEnhancedLength p \<noteq> 0
                     then ''**Original Length:** '' @ showInt (pOriginalLength p)
                       @ '' characters'' @ nl @ nl @ ''**Enhanced Length:** ''
                       @ showInt (pEnhancedLength p) @ '' characters'' @ nl @ nl else [])]),
            ''## '' @ emojiRocket @ '' Coming Soon: Auto-Apply Feature'' @ nl @ nl @ ''We''
              @ [CHR 0x27] @ ''re developing an exciting new feature that will allow you to:''
              @ nl @ nl @ ''- '' @ emojiSparkles
              @ '' Apply to multiple opportunities with one click when new matches are found''
              @ nl @ ''- '' @ emojiRobot @ '' AI-powered application templates'' @ nl @ ''- ''
              @ emojiMemo @ '' Customized cover letters'' @ nl @ ''- '' @ emojiZap
              @ '' Automated application submission'' @ nl @ nl
              @ ''*Feature currently in development*'' @ nl @ nl,
            ''---'' @ nl @ nl, ''*Job Matcher v1.0 - Powered by MCP Server*''])"

subsection \<open>The two responses\<close>

text \<open>
  The JSON envelope of a response. The fields that are the same constants in
  every response (the directives for the client) are left out.
\<close>

record artifact =
  artifact_id :: string
  artifact_title :: string
  content :: string
  metadata_total_matches :: int
  metadata_page :: int
  metadata_total_pages :: int
  metadata_has_more :: bool
  metadata_timestamp :: int
  metadata_source :: string

text \<open>
  \<open>now\<close> is the clock value used by \<open>formatDate\<close>, \<open>timestamp\<close> the later one of
  the artifact identifier.
\<close>

definition formatMarkdownResponse ::
  "hostEnv \<Rightarrow> int \<Rightarrow> int \<Rightarrow> backendResponse \<Rightarrow> int option \<Rightarrow> artifact" where
  "formatMarkdownResponse env now timestamp data remainingQuota =
     (let transformedData = transformJobData env now data remainingQuota;
          markdownContent =
            (if length (matches data) = 0 then generateNoMatchesMarkdown transformedData
             else generateJobMatcherMarkdown env transformedData)
      in \<lparr>artifact_id = ''job-matches-markdown-'' @ showInt timestamp,
          artifact_title =
            (if length (matches data) = 0 then ''Job Search Results - No Matches'' else ''Job Match Results - ''
              @ showInt (total_matches data) @ '' opportunities found''),
          content = markdownContent,
          metadata_total_matches = total_matches data,
          metadata_page = mPage (tMeta transformedData),
          metadata_total_pages = mTotalPages (tMeta transformedData),
          metadata_has_more = mHasMore (tMeta transformedData),
          metadata_timestamp = timestamp,
          metadata_source = ''MCP Job Matcher Server v1.0.0 - Artifact-Only Edition''\<rparr>)"

definition formatTableOnlyMarkdownResponse ::
  "hostEnv \<Rightarrow> int \<Rightarrow> int \<Rightarrow> backendResponse \<Rightarrow> int option \<Rightarrow> artifact" where
  "formatTableOnlyMarkdownResponse env now timestamp data remainingQuota =
     (let transformedData = transformJobData env now data remainingQuota;
          markdownContent =
            (if length (matches data) = 0 then generateNoMatchesMarkdown transformedData
             else generateJobIndexTableMarkdown env transformedData)
      in \<lparr>artifact_id = ''job-table-markdown-'' @ showInt timestamp,
          artifact_title =
            (if length (matches data) = 0 then ''Job Search Results - No Matches'' else ''Job Index Table - ''
              @ showInt (total_matches data) @ '' opportunities to apply''),
          content = markdownContent,
          metadata_total_matches = total_matches data,
          metadata_page = mPage (tMeta transformedData),
          metadata_total_pages = mTotalPages (tMeta transformedData),
          metadata_has_more = mHasMore (tMeta transformedData),
          metadata_timestamp = timestamp,
          metadata_source = ''MCP Job Matcher Server v1.0.0 - Table-Only Edition''\<rparr>)"

section \<open>Tool schemas and schema validation (tools.js)\<close>

text \<open>
  The input schema is the same for both tools. Of a property the schema gives the
  type and, where present, a pattern, an enumeration and bounds. The repository
  holds two versions of the schema; \<open>inputSchema\<close> is the one whose bounds agree
  with the validator (no property \<open>page\<close>), \<open>inputSchemaWithPage\<close> the other.
\<close>

datatype propType = PString | PInteger

record propSchema =
  propType :: propType
  datePattern :: bool
  enumValues :: "string list option"
  minimum :: "int option"
  maximum :: "int option"

definition stringProp :: propSchema where
  "stringProp = \<lparr>propType = PString, datePattern = False, enumValues = None,
                  minimum = None, maximum = None\<rparr>"

definition inputSchema :: "(string \<times> propSchema) list" where
  "inputSchema =
     [(''resume_text'', stringProp),
      (''user_experience'', stringProp),
      (''keywords'', stringProp),
      (''location'', stringProp),
      (''start_date'', stringProp\<lparr>datePattern := True\<rparr>),
      (''end_date'', stringProp\<lparr>datePattern := True\<rparr>),
      (''sort_by'', stringProp\<lparr>enumValues := Some [''similarity'', ''date'']\<rparr>)]"

definition inputSchemaWithPage :: "(string \<times> propSchema) list" where
  "inputSchemaWithPage =
     inputSchema @ [(''page'', stringProp\<lparr>propType := PInteger, minimum := Some 1\<rparr>)]"

definition requiredParameters :: "string list" where
  "requiredParameters = [''resume_text'']"

definition toolNames :: "string list" where
  "toolNames = [''match_resume'', ''match_jobs_to_apply'']"

text \<open>
  A lookup \<open>obj[key]\<close> also finds the properties that every object inherits; for
  such a key the lookup in \<open>tools\<close> or in \<open>schema.properties\<close> gives a value that
  is not a schema.
\<close>

definition objectPrototypeKeys :: "string list" where
  "objectPrototypeKeys =
     [''constructor'', ''hasOwnProperty'', ''isPrototypeOf'', ''propertyIsEnumerable'',
      ''toLocaleString'', ''toString'', ''valueOf'', ''__proto__'', ''__defineGetter__'',
      ''__defineSetter__'', ''__lookupGetter__'', ''__lookupSetter__'']"

definition datePatternText :: string where
  "datePatternText = ''^'' @ [CHR 0x5C] @ ''d{4}-'' @ [CHR 0x5C] @ ''d{2}-'' @ [CHR 0x5C] @ ''d{2}$''"

text \<open>
  \<open>params.start_date && params.start_date.trim() !== ''\<close>: for a truthy value that
  is not a string the call of \<open>trim\<close> throws (\<open>None\<close>).
\<close>

fun hasDate :: "jsval \<Rightarrow> bool option" where
  "hasDate (JStr s) = Some (s \<noteq> [] \<and> trim s \<noteq> [])"
| "hasDate v = (if truthy v then None else Some False)"

definition propertyErrors :: "(string \<times> propSchema) list \<Rightarrow> string \<times> jsval \<Rightarrow> string list" where
  "propertyErrors schema entry =
     (case entry of (key, v) \<Rightarrow>
        if v = JUndefined \<or> v = JNull \<or> v = JStr [] then []
        else
          (case map_of schema key of
             None \<Rightarrow> if key \<in> set objectPrototypeKeys then [] else [''Unknown parameter: '' @ key]
           | Some propSchema \<Rightarrow>
               (case propType propSchema of
                  PString \<Rightarrow>
                    (case v of
                       JStr s \<Rightarrow>
                         (if datePattern propSchema \<and> \<not> matchesDateRegex s
                          then [''Parameter '' @ key @ '' format is invalid. Expected format: ''
                                @ datePatternText]
                          else [])
                         @ (case enumValues propSchema of
                              None \<Rightarrow> []
                            | Some vals \<Rightarrow>
                                if s \<notin> set vals
                                then [''Parameter '' @ key @ '' must be one of: ''
                                      @ joinWith '', '' vals]
                                else [])
                     | _ \<Rightarrow> [''Parameter '' @ key @ '' must be a string''])
                | PInteger \<Rightarrow>
                    (case parseIntValue v of
                       None \<Rightarrow> [''Parameter '' @ key @ '' must be an integer'']
                     | Some intValue \<Rightarrow>
                         (case minimum propSchema of
                            None \<Rightarrow> []
                          | Some lo \<Rightarrow>
                              if intValue < lo
                              then [''Parameter '' @ key @ '' must be at least '' @ showInt lo]
                              else [])
                         @ (case maximum propSchema of
                              None \<Rightarrow> []
                            | Some hi \<Rightarrow>
                                if intValue > hi
                                then [''Parameter '' @ key @ '' must be at most '' @ showInt hi]
                                else [])))))"

text \<open>
  The logical dependency of the two dates, for the two tools: the errors, or
  \<open>None\<close> when a call of \<open>trim\<close> throws.
\<close>

definition dateDependencyErrors :: "hostEnv \<Rightarrow> jsobject \<Rightarrow> string list option" where
  "dateDependencyErrors env params =
     (case hasDate (getProp params ''start_date'') of
        None \<Rightarrow> None
      | Some hasStartDate \<Rightarrow>
          (case hasDate (getProp params ''end_date'') of
             None \<Rightarrow> None
           | Some hasEndDate \<Rightarrow>
               Some
                 ((if hasStartDate \<and> \<not> hasEndDate
                   then [''When start_date is provided, end_date must also be provided to create a complete date range'']
                   else [])
                  @ (if hasEndDate \<and> \<not> hasStartDate
                     then [''When end_date is provided, start_date must also be provided to create a complete date range'']
                     else [])
                  @ (if hasStartDate \<and> hasEndDate
                     then (case (newDate env (getProp params ''start_date''),
                                 newDate env (getProp params ''end_date'')) of
                             (Some startDate, Some endDate) \<Rightarrow>
                               if startDate \<ge> endDate
                               then [''start_date must be before end_date''] else []
                           | _ \<Rightarrow> [])
                     else []))))"

text \<open>
  \<open>validateToolParameters\<close> returns a validation or throws a \<open>TypeError\<close>
  (\<open>Inl\<close>): the function has no \<open>try\<close> block. The entries of the argument
  object are visited in the order of the association list, which is the order of
  \<open>Object.entries\<close> for an object given with its integer-like keys first.
\<close>

datatype thrown = TypeError

definition validateToolParameters ::
  "hostEnv \<Rightarrow> (string \<times> propSchema) list \<Rightarrow> string \<Rightarrow> jsobject \<Rightarrow> thrown + validation" where
  "validateToolParameters env schema toolName params =
     (if toolName \<in> set objectPrototypeKeys then Inl TypeError
      else if toolName \<notin> set toolNames
      then Inr \<lparr>valid = False, errors = [''Unknown tool: '' @ toolName]\<rparr>
      else
        (case dateDependencyErrors env params of
           None \<Rightarrow> Inl TypeError
         | Some dateErrors \<Rightarrow>
             Inr (validationOf
               (concat (map (\<lambda>required.
                    if getProp params required = JUndefined \<or> getProp params required = JNull
                    then [''Missing required parameter: '' @ required] else [])
                  requiredParameters)
                @ dateErrors
                @ concat (map (propertyErrors schema) params)))))"

section \<open>Tool handlers and front-ends (index.js, start-http.js, worker.js)\<close>

text \<open>
  The backend is a parameter: the outcome of the one HTTP call made with the
  given arguments, a response or what \<open>callBackendAPI\<close> throws. A handler
  returns its result together with the arguments of the backend calls it made.
  A result names the document that is rendered and the data it is rendered from.
\<close>

datatype failure = BackendError int | OtherError

type_synonym backend = "jsobject \<Rightarrow> failure + backendResponse"

datatype 'r toolResult =
    RateLimitErrorDocument 'r
  | ValidationErrorDocument "string list"
  | MarkdownDocument artifact
  | ErrorDocument failure

text \<open>The clock values read during one call, in the order of the reads.\<close>

record callTimes =
  checkTime :: int
  getUserDataTime :: int
  renderTime :: int
  stampTime :: int

datatype toolMode = FullListing | TableOnly

definition renderResponse ::
  "toolMode \<Rightarrow> hostEnv \<Rightarrow> callTimes \<Rightarrow> backendResponse \<Rightarrow> int option \<Rightarrow> artifact" where
  "renderResponse mode env t data quota =
     (case mode of
        FullListing \<Rightarrow> formatMarkdownResponse env (renderTime t) (stampTime t) data quota
      | TableOnly \<Rightarrow> formatTableOnlyMarkdownResponse env (renderTime t) (stampTime t) data quota)"

subsection \<open>stdio server (index.js)\<close>

definition getSessionId :: string where
  "getSessionId = ''claude-desktop-session''"

text \<open>
  The body shared by \<open>handleMatchResumeCall\<close> and \<open>handleMatchJobsToApplyCall\<close>,
  which differ in the formatter only. The limiter is the singleton of the module.
\<close>

definition handleCall ::
  "toolMode \<Rightarrow> hostEnv \<Rightarrow> backend \<Rightarrow> rateLimiter \<Rightarrow> jsobject option \<Rightarrow> callTimes
   \<Rightarrow> rateLimiter \<times> limitResult toolResult \<times> jsobject list" where
  "handleCall mode env backendApi L args t =
     (let sessionId = getSessionId;
          (L1, rateLimitResult) = checkLimit L sessionId (checkTime t) (getUserDataTime t)
      in if \<not> allowed rateLimitResult
         then (L1, RateLimitErrorDocument rateLimitResult, [])
         else
           (let validation = validateInputs env args
            in if \<not> valid validation
               then (L1, ValidationErrorDocument (errors validation), [])
               else
                 (case args of
                    None \<Rightarrow> (L1, ErrorDocument OtherError, [])
                  | Some a \<Rightarrow>
                      (case backendApi a of
                         Inl err \<Rightarrow> (L1, ErrorDocument err, [a])
                       | Inr backendResponse \<Rightarrow>
                           (L1,
                            MarkdownDocument
                              (renderResponse mode env t backendResponse
                                 (Some (remaining rateLimitResult))),
                            [a])))))"

definition handleMatchResumeCall ::
  "hostEnv \<Rightarrow> backend \<Rightarrow> rateLimiter \<Rightarrow> jsobject option \<Rightarrow> callTimes
   \<Rightarrow> rateLimiter \<times> limitResult toolResult \<times> jsobject list" where
  "handleMatchResumeCall = handleCall FullListing"

definition handleMatchJobsToApplyCall ::
  "hostEnv \<Rightarrow> backend \<Rightarrow> rateLimiter \<Rightarrow> jsobject option \<Rightarrow> callTimes
   \<Rightarrow> rateLimiter \<times> limitResult toolResult \<times> jsobject list" where
  "handleMatchJobsToApplyCall = handleCall TableOnly"

subsection \<open>HTTP server (start-http.js), route \<open>POST /mcp/tools/call\<close>\<close>

text \<open>
  The route checks the tool name and the schema, then the rate limit of the peer
  address, and then calls \<open>handleMatchResumeCall\<close> of the stdio server, which checks
  the rate limit of its own session again. \<open>t\<close> holds the clock values of the
  check of the route, \<open>t2\<close> those of the handler.
\<close>

datatype 'r httpResult =
    UnknownTool
  | ToolValidationFailed "string list"
  | ToolExecutionFailed
  | RateLimitExceeded 'r
  | ToolResult "'r toolResult"

definition httpToolsCall ::
  "hostEnv \<Rightarrow> backend \<Rightarrow> rateLimiter \<Rightarrow> string \<Rightarrow> string \<Rightarrow> jsobject option
   \<Rightarrow> callTimes \<Rightarrow> callTimes
   \<Rightarrow> rateLimiter \<times> limitResult httpResult \<times> jsobject list" where
  "httpToolsCall env backendApi L peer name args t t2 =
     (if name \<notin> set toolNames \<and> name \<notin> set objectPrototypeKeys then (L, UnknownTool, [])
      else
        (case validateToolParameters env inputSchema name
                (case args of None \<Rightarrow> [] | Some a \<Rightarrow> a) of
           Inl e \<Rightarrow> (L, ToolExecutionFailed, [])
         | Inr validation \<Rightarrow>
             if \<not> valid validation then (L, ToolValidationFailed (errors validation), [])
             else
               (let sessionId = (if peer \<noteq> [] then peer else ''http-client'');
                    (L1, rateLimitResult) =
                       checkLimit L sessionId (checkTime t) (getUserDataTime t)
                in if \<not> allowed rateLimitResult
                   then (L1, RateLimitExceeded rateLimitResult, [])
                   else
                     (case handleMatchResumeCall env backendApi L1 args t2 of
                        (L2, result, calls) \<Rightarrow> (L2, ToolResult result, calls)))))"

subsection \<open>Edge worker (worker.js)\<close>

text \<open>
  \<open>CONFIG.RATE_LIMIT_PER_MINUTE\<close> is \<open>parseInt(globalThis.RATE_LIMIT_PER_MINUTE) || 10\<close>.
\<close>

definition configuredLimit :: "jsval \<Rightarrow> int" where
  "configuredLimit raw =
     (case parseIntValue raw of None \<Rightarrow> 10 | Some n \<Rightarrow> if n = 0 then 10 else n)"

text \<open>
  \<open>WorkersJobMatcherServer\<close>: its only field is the rate limiter that the
  constructor creates.
\<close>

definition newWorkersJobMatcherServer :: "jsval \<Rightarrow> workersRateLimiter" where
  "newWorkersJobMatcherServer rawLimit = newWorkersRateLimiter (configuredLimit rawLimit)"

text \<open>
  The handler of the worker; \<open>apiToken\<close> is \<open>env.API_AUTH_TOKEN\<close>. Without a
  token \<open>callBackendAPI\<close> throws before it calls the backend.
\<close>

definition workerHandleCall ::
  "toolMode \<Rightarrow> hostEnv \<Rightarrow> backend \<Rightarrow> string option \<Rightarrow> workersRateLimiter \<Rightarrow> jsobject option
   \<Rightarrow> string \<Rightarrow> callTimes
   \<Rightarrow> workersRateLimiter \<times> workersLimitResult toolResult \<times> jsobject list" where
  "workerHandleCall mode env backendApi apiToken W args sessionId t =
     (let (W1, rateLimitResult) = workersCheckLimit W sessionId (checkTime t)
      in if \<not> wAllowed rateLimitResult
         then (W1, RateLimitErrorDocument rateLimitResult, [])
         else
           (let validation = validateInputs env args
            in if \<not> valid validation
               then (W1, ValidationErrorDocument (errors validation), [])
               else
                 (case args of
                    None \<Rightarrow> (W1, ErrorDocument OtherError, [])
                  | Some a \<Rightarrow>
                      if apiToken = None \<or> apiToken = Some []
                      then (W1, ErrorDocument OtherError, [])
                      else
                        (case backendApi a of
                           Inl err \<Rightarrow> (W1, ErrorDocument err, [a])
                         | Inr backendResponse \<Rightarrow>
                             (W1,
                              MarkdownDocument
                                (renderResponse mode env t backendResponse
                                   (Some (wRemaining rateLimitResult))),
                              [a])))))"

text \<open>
  \<open>fetch\<close>, for a request that calls a tool (\<open>POST /mcp/tools/call\<close>). The session
  id comes from the headers of the request. Every invocation constructs a server
  of its own; nothing of it outlives the invocation, so the function returns no
  limiter. \<open>rawLimit\<close> is the configured \<open>RATE_LIMIT_PER_MINUTE\<close>.
\<close>

definition workerSessionId :: "string option \<Rightarrow> string option \<Rightarrow> string" where
  "workerSessionId cfConnectingIp xForwardedFor =
     (case cfConnectingIp of
        Some ip \<Rightarrow> if ip \<noteq> [] then ip else orElse xForwardedFor ''worker-client''
      | None \<Rightarrow> orElse xForwardedFor ''worker-client'')"

definition workerFetchToolCall ::
  "jsval \<Rightarrow> hostEnv \<Rightarrow> backend \<Rightarrow> string option \<Rightarrow> string option \<Rightarrow> string option
   \<Rightarrow> string \<Rightarrow> jsobject option \<Rightarrow> callTimes
   \<Rightarrow> workersLimitResult httpResult \<times> jsobject list" where
  "workerFetchToolCall rawLimit env backendApi apiToken cfConnectingIp xForwardedFor name args t =
     (let sessionId = workerSessionId cfConnectingIp xForwardedFor;
          server = newWorkersJobMatcherServer rawLimit
      in if name \<notin> set toolNames \<and> name \<notin> set objectPrototypeKeys then (UnknownTool, [])
         else
           (case validateToolParameters env inputSchema name
                   (case args of None \<Rightarrow> [] | Some a \<Rightarrow> a) of
              Inl e \<Rightarrow> (ToolExecutionFailed, [])
            | Inr validation \<Rightarrow>
                if \<not> valid validation then (ToolValidationFailed (errors validation), [])
                else
                  (case workerHandleCall
                          (if name = ''match_resume'' then FullListing else TableOnly)
                          env backendApi apiToken server args sessionId t of
                     (W1, result, calls) \<Rightarrow> (ToolResult result, calls))))"

text \<open>The limit check that one invocation of \<open>fetch\<close> performs on its new server.\<close>

definition workerFetchLimitCheck :: "jsval \<Rightarrow> string \<Rightarrow> int \<Rightarrow> workersLimitResult" where
  "workerFetchLimitCheck rawLimit sessionId now =
     snd (workersCheckLimit (newWorkersJobMatcherServer rawLimit) sessionId now)"

text \<open>
  Example states and inputs: the limiter of the stdio server after ten requests
  of its session within one second, and an argument object without resume text.
\<close>

definition exhaustedLimiter :: rateLimiter where
  "exhaustedLimiter =
     \<lparr>requestsPerMinute = 10, windowSizeMs = 60000,
      users = [getSessionId \<mapsto> \<lparr>requests = [0, 100, 200, 300, 400, 500, 600, 700, 800, 900],
                                  resetTime = 60900\<rparr>]\<rparr>"

definition exampleTimes :: callTimes where
  "exampleTimes = \<lparr>checkTime = 1000, getUserDataTime = 1000, renderTime = 1001, stampTime = 1002\<rparr>"

definition emptyResponse :: backendResponse where
  "emptyResponse =
     \<lparr>matches = [], total_matches = 0, resp_page = 1, total_pages = 0, has_more = False,
      extracted_skills = [], user_experience = JUndefined, resume_processing = None,
      resp_keywords = JUndefined\<rparr>"

definition exampleBackend :: backend where
  "exampleBackend = (\<lambda>a. Inr emptyResponse)"

text \<open>
  Further example inputs: arguments with a valid resume and a start date but no
  end date, and a match whose similarity score is one half.
\<close>

definition startDateOnly :: jsobject where
  "startDateOnly = [(''resume_text'', JStr sampleResume), (''start_date'', JStr ''2025-01-15'')]"

definition halfMatch :: jobMatch where
  "halfMatch =
     \<lparr>job_title = Some ''Engineer'', company_name = Some ''Acme'', match_location = Some ''Berlin'',
      similarity_score = Some (1 / 2), job_link = Some ''https://jobs.example/42'',
      first_published = None, min_experience_years = Some 3, salary = None, job_type = None,
      chunk_text = Some ''Required Skills: Python, SQL''\<rparr>"

section \<open>Properties of the rate limiters\<close>

subsection \<open>The call unfolded\<close>

lemma checkLimit_unfold:
  "checkLimit L sid now tg =
     (let rs = filter (\<lambda>x. x > now - windowSizeMs L) (sessionRequests L sid);
          rt = (case users L sid of None \<Rightarrow> now + windowSizeMs L
                | Some u \<Rightarrow> if rs = [] then now + windowSizeMs L else resetTime u)
      in if int (length rs) \<ge> requestsPerMinute L
         then (L\<lparr>users := (users L)(sid \<mapsto> \<lparr>requests = rs, resetTime = rt\<rparr>)\<rparr>,
               \<lparr>allowed = False, remaining = 0, resultResetTime = rt,
                requestCount = length rs, limit = requestsPerMinute L\<rparr>)
         else (L\<lparr>users := (users L)(sid \<mapsto> \<lparr>requests = rs @ [now], resetTime = now + windowSizeMs L\<rparr>)\<rparr>,
               \<lparr>allowed = True, remaining = requestsPerMinute L - int (length rs + 1),
                resultResetTime = now + windowSizeMs L,
                requestCount = length rs + 1, limit = requestsPerMinute L\<rparr>))"
  by (cases "users L sid")
     (simp_all add: checkLimit_def getUserData_def cleanOldRequests_def sessionRequests_def Let_def)

lemma checkLimit_clock: "checkLimit L sid now a = checkLimit L sid now b"
  by (simp add: checkLimit_unfold Let_def)





subsection \<open>Sliding window of a session\<close>




lemma mathMin_least:
  "rs \<noteq> [] \<Longrightarrow> \<exists>m. mathMin rs = Fin m \<and> m \<in> set rs \<and> (\<forall>x \<in> set rs. m \<le> x)"
proof (induction rs)
  case Nil
  then show ?case by simp
next
  case (Cons a rs)
  show ?case
  proof (cases rs)
    case Nil
    then show ?thesis by simp
  next
    case (Cons b bs)
    then obtain m where "mathMin rs = Fin m" "m \<in> set rs" "\<forall>x \<in> set rs. m \<le> x"
      using Cons.IH by auto
    then show ?thesis by (auto simp: min_def)
  qed
qed

subsection \<open>Reset time of a denial\<close>

text \<open>
  What the two limiters return on a denial. The worker's limiter (positive limit)
  returns the least timestamp still inside the window plus 60 seconds.
  \<open>RateLimiter\<close> (positive limit) returns the reset time stored for the session
  and leaves it unchanged; an allowed request sets it to its own time plus the
  window, so a denial that follows an allowed request at time \<open>t\<close> returns
  \<open>t + windowSizeMs\<close>.
\<close>

lemma reset_time_on_denial:
  "(\<not> wAllowed (snd (workersCheckLimit W wsid now)) \<and> 0 < limitPerMinute W \<longrightarrow>
      (\<exists>m. wResetTime (snd (workersCheckLimit W wsid now)) = Fin (m + 60 * 1000)
         \<and> m \<in> set (recentRequests W wsid now)
         \<and> (\<forall>x \<in> set (recentRequests W wsid now). m \<le> x)))
   \<and> (\<not> allowed (snd (checkLimit L sid t' tg')) \<and> 0 < requestsPerMinute L \<longrightarrow>
      (\<exists>u. users L sid = Some u
         \<and> resultResetTime (snd (checkLimit L sid t' tg')) = resetTime u
         \<and> map_option resetTime (users (fst (checkLimit L sid t' tg')) sid) = Some (resetTime u)))
   \<and> (allowed (snd (checkLimit M s t tg))
        \<and> \<not> allowed (snd (checkLimit (fst (checkLimit M s t tg)) s t2 tg2)) \<longrightarrow>
      resultResetTime (snd (checkLimit (fst (checkLimit M s t tg)) s t2 tg2))
         = t + windowSizeMs M)"
proof (intro conjI impI)
  assume a: "\<not> wAllowed (snd (workersCheckLimit W wsid now)) \<and> 0 < limitPerMinute W"
  then have full: "limitPerMinute W \<le> int (length (recentRequests W wsid now))"
    by (auto simp: workersCheckLimit_def Let_def split: if_splits)
  with a have "recentRequests W wsid now \<noteq> []" by auto
  from mathMin_least[OF this] obtain m where
    m: "mathMin (recentRequests W wsid now) = Fin m" "m \<in> set (recentRequests W wsid now)"
       "\<forall>x \<in> set (recentRequests W wsid now). m \<le> x" by blast
  have "wResetTime (snd (workersCheckLimit W wsid now)) = Fin (m + 60 * 1000)"
    using full m(1) by (simp add: workersCheckLimit_def Let_def)
  with m show "\<exists>m. wResetTime (snd (workersCheckLimit W wsid now)) = Fin (m + 60 * 1000)
         \<and> m \<in> set (recentRequests W wsid now)
         \<and> (\<forall>x \<in> set (recentRequests W wsid now). m \<le> x)" by blast
next
  assume a: "\<not> allowed (snd (checkLimit L sid t' tg')) \<and> 0 < requestsPerMinute L"
  let ?rs = "filter (\<lambda>x. x > t' - windowSizeMs L) (sessionRequests L sid)"
  have full: "requestsPerMinute L \<le> int (length ?rs)"
    using a by (auto simp: checkLimit_unfold Let_def split: if_splits)
  with a have ne: "?rs \<noteq> []" by auto
  then obtain u where u: "users L sid = Some u"
    by (cases "users L sid") (auto simp: sessionRequests_def)
  show "\<exists>u. users L sid = Some u
         \<and> resultResetTime (snd (checkLimit L sid t' tg')) = resetTime u
         \<and> map_option resetTime (users (fst (checkLimit L sid t' tg')) sid) = Some (resetTime u)"
    using u full ne by (simp add: checkLimit_unfold Let_def)
next
  assume a: "allowed (snd (checkLimit M s t tg))
        \<and> \<not> allowed (snd (checkLimit (fst (checkLimit M s t tg)) s t2 tg2))"
  let ?rs = "filter (\<lambda>x. x > t - windowSizeMs M) (sessionRequests M s)"
  let ?L1 = "fst (checkLimit M s t tg)"
  have notfull: "\<not> requestsPerMinute M \<le> int (length ?rs)"
    using a by (auto simp: checkLimit_unfold Let_def split: if_splits)
  have L1: "users ?L1 s = Some \<lparr>requests = ?rs @ [t], resetTime = t + windowSizeMs M\<rparr>"
    "requestsPerMinute ?L1 = requestsPerMinute M" "windowSizeMs ?L1 = windowSizeMs M"
    using notfull by (simp_all add: checkLimit_unfold Let_def)
  let ?rs' = "filter (\<lambda>x. x > t2 - windowSizeMs ?L1) (sessionRequests ?L1 s)"
  have full: "requestsPerMinute ?L1 \<le> int (length ?rs')"
    using a by (auto simp: checkLimit_unfold[of ?L1] Let_def split: if_splits)
  have "0 < requestsPerMinute M" using notfull by linarith
  with full L1 have ne: "?rs' \<noteq> []" by auto
  show "resultResetTime (snd (checkLimit ?L1 s t2 tg2)) = t + windowSizeMs M"
    using full ne L1 by (simp add: checkLimit_unfold[of ?L1] Let_def)
qed

text \<open>
  Claim C2 does not hold for \<open>RateLimiter\<close>, and the reset time that it returns
  is not the time at which the session is admitted again. With limit 2 and
  requests recorded at 0 and 1000, the denial at 2000 returns the reset time 61000,
  whereas the oldest request inside the window plus the window is 60000; a call at
  60000, before the returned reset time, is allowed. The worker's limiter returns
  60000 for the same requests.
\<close>

theorem reset_time_not_oldest:
  "\<not> allowed (snd (checkLimit twoRecorded ''s'' 2000 2000))
   \<and> sessionRequests (fst (checkLimit twoRecorded ''s'' 2000 2000)) ''s'' = [0, 1000]
   \<and> resultResetTime (snd (checkLimit twoRecorded ''s'' 2000 2000)) = 61000
   \<and> Fin (resultResetTime (snd (checkLimit twoRecorded ''s'' 2000 2000)))
       \<noteq> jsPlus (mathMin [0, 1000]) (windowSizeMs twoRecorded)
   \<and> allowed (snd (checkLimit (fst (checkLimit twoRecorded ''s'' 2000 2000)) ''s'' 60000 60000))
   \<and> \<not> wAllowed (snd (workersCheckLimit twoRecordedWorker ''s'' 2000))
   \<and> wResetTime (snd (workersCheckLimit twoRecordedWorker ''s'' 2000)) = Fin 60000"
  by (simp add: twoRecorded_def newRateLimiter_def checkLimit_def getUserData_def
      cleanOldRequests_def sessionRequests_def twoRecordedWorker_def newWorkersRateLimiter_def
      workersCheckLimit_def recentRequests_def Let_def)

section \<open>Properties of input validation\<close>

subsection \<open>Normalisation keeps the words and does not lengthen the text\<close>

lemma length_collapseFrom: "length (collapseFrom b s) \<le> length s"
  by (induction s arbitrary: b) (auto intro: le_SucI)

lemma length_trim: "length (trim s) \<le> length s"
  unfolding trim_def
  using length_dropWhile_le[of isWhiteSpace "rev (dropWhile isWhiteSpace s)"]
        length_dropWhile_le[of isWhiteSpace s]
  by simp

lemma length_normalizeText: "length (normalizeText t) \<le> length t"
  unfolding normalizeText_def collapseWhiteSpace_def
  using length_trim[of "collapseFrom False t"] length_collapseFrom[of False t]
  by linarith

lemma repeatedCharTest_longestRun: "repeatedCharTest t \<Longrightarrow> 21 \<le> longestRun t"
  by (induction t) auto

lemma filter_splitRunsFrom:
  "(b \<longrightarrow> cur = []) \<Longrightarrow>
   filter (\<lambda>w. w \<noteq> []) (splitRunsFrom isWhiteSpace b cur s) = wordsFrom cur s"
  by (induction s arbitrary: b cur) auto

lemma space_isWhiteSpace: "isWhiteSpace (CHR '' '')"
  by (simp add: isWhiteSpace_def)

lemma wordsFrom_collapseFrom:
  "(b \<longrightarrow> cur = []) \<Longrightarrow> wordsFrom cur (collapseFrom b s) = wordsFrom cur s"
  by (induction s arbitrary: b cur) (auto simp: space_isWhiteSpace)

lemma wordsFrom_dropWhile: "wordsFrom [] (dropWhile isWhiteSpace s) = wordsFrom [] s"
  by (induction s) auto

lemma wordsFrom_all_white: "\<forall>c \<in> set t. isWhiteSpace c \<Longrightarrow> wordsFrom [] t = []"
  by (induction t) auto

lemma wordsFrom_append_white:
  "\<forall>c \<in> set t. isWhiteSpace c \<Longrightarrow> wordsFrom cur (s @ t) = wordsFrom cur s"
proof (induction s arbitrary: cur)
  case Nil
  then show ?case by (cases t) (auto simp: wordsFrom_all_white)
next
  case (Cons a s)
  then show ?case by simp
qed

lemma wordsFrom_trim: "wordsFrom [] (trim s) = wordsFrom [] s"
proof -
  let ?u = "dropWhile isWhiteSpace s"
  have split: "?u = rev (dropWhile isWhiteSpace (rev ?u)) @ rev (takeWhile isWhiteSpace (rev ?u))"
    by (metis rev_append rev_rev_ident takeWhile_dropWhile_id)
  have white: "\<forall>c \<in> set (rev (takeWhile isWhiteSpace (rev ?u))). isWhiteSpace c"
    by (auto dest: set_takeWhileD)
  have "wordsFrom [] ?u = wordsFrom [] (rev (dropWhile isWhiteSpace (rev ?u)))"
    using wordsFrom_append_white[OF white, of "[]" "rev (dropWhile isWhiteSpace (rev ?u))"] split
    by simp
  then show ?thesis by (simp add: trim_def wordsFrom_dropWhile)
qed

lemma wordsOf_normalizeText: "wordsOf (normalizeText t) = whitespaceDelimitedWords t"
  by (simp add: wordsOf_def splitRuns_def filter_splitRunsFrom normalizeText_def
      collapseWhiteSpace_def wordsFrom_trim wordsFrom_collapseFrom whitespaceDelimitedWords_def)

lemma validateInputs_resume_errors:
  "getProp args ''resume_text'' = JStr text \<Longrightarrow> text \<noteq> [] \<Longrightarrow>
   set (errors (validateResumeText (JStr text))) \<subseteq> set (errors (validateInputs env (Some args)))"
  by (auto simp: validationOf_def pushErrors_def)

lemma tooShortMessage_text:
  "tooShortMessage = ''Resume text is too short. Minimum 500 characters required''"
  by (simp add: tooShortMessage_def MIN_RESUME_LENGTH_def showNat_def showDigits.simps digitChar_def)

lemma tooLongMessage_text:
  "tooLongMessage = ''Resume text is too long. Maximum 15000 characters allowed''"
  by (simp add: tooLongMessage_def MAX_RESUME_LENGTH_def showNat_def showDigits.simps digitChar_def)

lemma error_invalid: "m \<in> set (errors (validateInputs env a)) \<Longrightarrow> \<not> valid (validateInputs env a)"
  by (cases a) (auto simp: validationOf_def)

lemma short_resume_rejected:
  assumes "getProp args ''resume_text'' = JStr resume" "resume \<noteq> []" "length resume < 500"
  shows "tooShortMessage \<in> set (errors (validateInputs env (Some args)))"
proof -
  have "tooShortMessage \<in> set (errors (validateResumeText (JStr resume)))"
    using assms(3) by (simp add: validationOf_def MIN_RESUME_LENGTH_def)
  then show ?thesis
    using validateInputs_resume_errors[OF assms(1) assms(2), of env] by blast
qed

lemma long_resume_rejected:
  assumes "getProp args ''resume_text'' = JStr resume" "length resume > 15000"
  shows "tooLongMessage \<in> set (errors (validateInputs env (Some args)))"
proof -
  have ne: "resume \<noteq> []" using assms(2) by auto
  have "tooLongMessage \<in> set (errors (validateResumeText (JStr resume)))"
    using assms(2) by (simp add: validationOf_def MAX_RESUME_LENGTH_def)
  then show ?thesis
    using validateInputs_resume_errors[OF assms(1) ne, of env] by blast
qed

lemma good_resume_accepted:
  assumes "length good \<le> 15000" "500 \<le> length (normalizeText good)"
    "10 \<le> length (whitespaceDelimitedWords good)" "longestRun good < 21"
  shows "validateResumeText (JStr good) = \<lparr>valid = True, errors = []\<rparr>"
proof -
  have len: "500 \<le> length good"
    using assms(2) length_normalizeText[of good] by linarith
  have rep: "\<not> repeatedCharTest good"
    using assms(4) repeatedCharTest_longestRun[of good] by auto
  have mc: "validateMeaningfulContent good = \<lparr>valid = True, errors = []\<rparr>"
    using assms rep
    by (simp add: validateMeaningfulContent_def Let_def MIN_RESUME_LENGTH_def
        wordsOf_normalizeText validationOf_def)
  show ?thesis
    using assms(1) len mc
    by (simp add: validationOf_def MIN_RESUME_LENGTH_def MAX_RESUME_LENGTH_def)
qed

subsection \<open>Length and content checks of the resume text\<close>

text \<open>
  Claim C4, as stated, fails twice. A text of 600 characters with one hundred
  words and no long run of one character is rejected by the content check when
  collapsing its white space leaves fewer than 500 characters. The empty text is
  shorter than the minimum and is rejected without a length-specific message.
\<close>

theorem resume_text_claim_counterexample:
  "length spacedText = 600
   \<and> length (whitespaceDelimitedWords spacedText) = 100
   \<and> longestRun spacedText = 2
   \<and> errors (validateResumeText (JStr spacedText))
       = [''Resume text contains insufficient content (too much whitespace)'']
   \<and> errors (validateInputs exampleEnv (Some [(''resume_text'', JStr [])]))
       = [''Resume text is required'']"
proof -
  have c1: "length spacedText = 600" by code_simp
  have c2: "length (whitespaceDelimitedWords spacedText) = 100" by code_simp
  have c3: "longestRun spacedText = 2" by code_simp
  have c4: "length (normalizeText spacedText) = 499" by code_simp
  have c5: "errors (validateResumeText (JStr spacedText))
       = [''Resume text contains insufficient content (too much whitespace)'']"
    using c1 c4
    by (simp add: validationOf_def validateMeaningfulContent_def MIN_RESUME_LENGTH_def
        MAX_RESUME_LENGTH_def)
  have c6: "errors (validateInputs exampleEnv (Some [(''resume_text'', JStr [])]))
       = [''Resume text is required'']"
    by (simp add: validationOf_def pushErrors_def getProp_def validateRequiredParameters_def
        validateOptionalParameters_def provided_def)
  show ?thesis by (intro conjI c1 c2 c3 c5 c6)
qed

text \<open>
  Claim C4, amended. For a non-empty resume text shorter than 500 characters,
  \<open>validateInputs\<close> fails and reports the too-short message; for a text longer than
  15000 characters it fails and reports the too-long message. For a text of at most
  15000 characters whose form with collapsed white space has at least 500
  characters, with at least 10 words delimited by white space and no run of 21 or
  more identical characters, the length and content checks report no error.
\<close>

theorem resume_text_checks:
  "(getProp args ''resume_text'' = JStr resume \<and> resume \<noteq> [] \<and> length resume < 500 \<longrightarrow>
      \<not> valid (validateInputs env (Some args))
      \<and> ''Resume text is too short. Minimum 500 characters required''
          \<in> set (errors (validateInputs env (Some args))))
   \<and> (getProp args2 ''resume_text'' = JStr long \<and> length long > 15000 \<longrightarrow>
      \<not> valid (validateInputs env (Some args2))
      \<and> ''Resume text is too long. Maximum 15000 characters allowed''
          \<in> set (errors (validateInputs env (Some args2))))
   \<and> (length good \<le> 15000 \<and> 500 \<le> length (normalizeText good)
        \<and> 10 \<le> length (whitespaceDelimitedWords good) \<and> longestRun good < 21 \<longrightarrow>
      valid (validateResumeText (JStr good)) \<and> errors (validateResumeText (JStr good)) = [])"
proof (intro conjI impI)
  assume a: "getProp args ''resume_text'' = JStr resume \<and> resume \<noteq> [] \<and> length resume < 500"
  have m: "tooShortMessage \<in> set (errors (validateInputs env (Some args)))"
    by (rule short_resume_rejected[OF a[THEN conjunct1] a[THEN conjunct2, THEN conjunct1]
          a[THEN conjunct2, THEN conjunct2]])
  from m show "\<not> valid (validateInputs env (Some args))"
    by (rule error_invalid)
  from m show "''Resume text is too short. Minimum 500 characters required''
          \<in> set (errors (validateInputs env (Some args)))"
    by (simp only: tooShortMessage_text)
next
  assume a: "getProp args2 ''resume_text'' = JStr long \<and> length long > 15000"
  have m: "tooLongMessage \<in> set (errors (validateInputs env (Some args2)))"
    by (rule long_resume_rejected[OF a[THEN conjunct1] a[THEN conjunct2]])
  from m show "\<not> valid (validateInputs env (Some args2))"
    by (rule error_invalid)
  from m show "''Resume text is too long. Maximum 15000 characters allowed''
          \<in> set (errors (validateInputs env (Some args2)))"
    by (simp only: tooLongMessage_text)
next
  assume a: "length good \<le> 15000 \<and> 500 \<le> length (normalizeText good)
        \<and> 10 \<le> length (whitespaceDelimitedWords good) \<and> longestRun good < 21"
  have g: "validateResumeText (JStr good) = \<lparr>valid = True, errors = []\<rparr>"
    by (rule good_resume_accepted[OF a[THEN conjunct1] a[THEN conjunct2, THEN conjunct1]
          a[THEN conjunct2, THEN conjunct2, THEN conjunct1]
          a[THEN conjunct2, THEN conjunct2, THEN conjunct2]])
  show "valid (validateResumeText (JStr good))" by (simp only: g validation.simps)
  show "errors (validateResumeText (JStr good)) = []" by (simp only: g validation.simps)
qed

theorem resume_text_checks_witness:
  "getProp [(''resume_text'', JStr ''short'')] ''resume_text'' = JStr ''short''
   \<and> ''short'' \<noteq> [] \<and> length ''short'' < 500
   \<and> \<not> valid (validateInputs exampleEnv (Some [(''resume_text'', JStr ''short'')]))
   \<and> getProp [(''resume_text'', JStr (replicate 15001 CHR ''a''))] ''resume_text''
       = JStr (replicate 15001 CHR ''a'')
   \<and> length (replicate 15001 CHR ''a'') > 15000
   \<and> \<not> valid (validateInputs exampleEnv (Some [(''resume_text'', JStr (replicate 15001 CHR ''a''))]))
   \<and> length sampleResume \<le> 15000 \<and> 500 \<le> length (normalizeText sampleResume)
   \<and> 10 \<le> length (whitespaceDelimitedWords sampleResume) \<and> longestRun sampleResume < 21
   \<and> valid (validateResumeText (JStr sampleResume))"
proof -
  have h1: "getProp [(''resume_text'', JStr ''short'')] ''resume_text'' = JStr ''short''
      \<and> ''short'' \<noteq> [] \<and> length ''short'' < 500"
    by (simp add: getProp_def)
  have h2: "getProp [(''resume_text'', JStr (replicate 15001 CHR ''a''))] ''resume_text''
       = JStr (replicate 15001 CHR ''a'') \<and> length (replicate 15001 CHR ''a'') > 15000"
    by (simp add: getProp_def)
  have h3: "length sampleResume \<le> 15000" by code_simp
  have h4: "500 \<le> length (normalizeText sampleResume)" by code_simp
  have h5: "10 \<le> length (whitespaceDelimitedWords sampleResume)" by code_simp
  have h6: "longestRun sampleResume < 21" by code_simp
  note T = resume_text_checks [of "[(''resume_text'', JStr ''short'')]" "''short''" exampleEnv
      "[(''resume_text'', JStr (replicate 15001 CHR ''a''))]" "replicate 15001 CHR ''a''"
      sampleResume]
  have t1: "\<not> valid (validateInputs exampleEnv (Some [(''resume_text'', JStr ''short'')]))"
    by (rule T[THEN conjunct1, THEN mp, OF h1, THEN conjunct1])
  have t2: "\<not> valid (validateInputs exampleEnv
      (Some [(''resume_text'', JStr (replicate 15001 CHR ''a''))]))"
    by (rule T[THEN conjunct2, THEN conjunct1, THEN mp, OF h2, THEN conjunct1])
  have t3: "valid (validateResumeText (JStr sampleResume))"
    by (rule T[THEN conjunct2, THEN conjunct2, THEN mp, OF conjI[OF h3 conjI[OF h4 conjI[OF h5 h6]]],
        THEN conjunct1])
  show ?thesis
    by (intro conjI h1[THEN conjunct1] h1[THEN conjunct2, THEN conjunct1]
        h1[THEN conjunct2, THEN conjunct2] t1 h2[THEN conjunct1] h2[THEN conjunct2] t2
        h3 h4 h5 h6 t3)
qed

section \<open>Properties of the text extraction\<close>

lemma searchFirst_here: "f t = Some g \<Longrightarrow> searchFirst f t = Some g"
  by (cases t) auto

lemma matchAfterMarker_no_marker:
  "stripPrefixCI marker s = None \<Longrightarrow> matchAfterMarker marker stop s = None"
  by (simp add: matchAfterMarker_def)

lemma searchFirst_absent:
  "\<not> occursCI marker s \<Longrightarrow> searchFirst (matchAfterMarker marker stop) s = None"
  by (induction s) (simp_all add: matchAfterMarker_no_marker)

lemma stripPrefixCI_longer:
  "length p \<le> length u \<Longrightarrow> stripPrefixCI p u = None \<Longrightarrow> stripPrefixCI p (u @ y) = None"
proof (induction p arbitrary: u)
  case Nil
  then show ?case by simp
next
  case (Cons a p)
  then show ?case by (cases u) (auto split: if_splits)
qed

lemma searchFirst_skip:
  assumes "\<not> occursCI p (pre @ b)" "length p \<le> Suc (length b)"
  shows "searchFirst (matchAfterMarker p stop) (pre @ b @ y)
           = searchFirst (matchAfterMarker p stop) (b @ y)"
  using assms(1)
proof (induction pre)
  case Nil
  then show ?case by simp
next
  case (Cons c pre)
  have none: "stripPrefixCI p (c # pre @ b) = None" and rest: "\<not> occursCI p (pre @ b)"
    using Cons.prems by auto
  have "length p \<le> length (c # pre @ b)" using assms(2) by simp
  from stripPrefixCI_longer[OF this none, of y]
  have "matchAfterMarker p stop (c # pre @ b @ y) = None"
    by (simp add: matchAfterMarker_no_marker)
  then show ?case using Cons.IH[OF rest] by simp
qed

lemma stripPrefixCI_same:
  "map asciiUpper m = map asciiUpper p \<Longrightarrow> stripPrefixCI p (m @ x) = Some x"
proof (induction p arbitrary: m)
  case Nil
  then show ?case by simp
next
  case (Cons a p)
  then show ?case by (cases m) auto
qed

lemma captureGroup_line:
  assumes "line \<noteq> []" "list_all (\<lambda>c. \<not> stop c) line" "rest = [] \<or> stop (hd rest)"
  shows "captureGroup stop (line @ rest) = Some line"
proof -
  have tw: "takeWhile (\<lambda>x. \<not> stop x) rest = []"
    using assms(3) by (cases rest) auto
  have all: "\<forall>c \<in> set line. \<not> stop c"
    using assms(2) by (simp add: list_all_iff)
  then have "takeWhile (\<lambda>x. \<not> stop x) (line @ rest) = line"
    using tw by (simp add: takeWhile_append2)
  moreover obtain c cs where l: "line = c # cs" using assms(1) by (cases line) auto
  moreover have "\<not> stop c" using all l by simp
  ultimately show ?thesis by (simp add: captureGroup_def)
qed

lemma backtrackSpace_first:
  "captureGroup stop (drop k rest) = Some g \<Longrightarrow> backtrackSpace stop k rest = Some g"
  by (cases k) auto

lemma white_space_run:
  assumes "list_all isWhiteSpace ws" "line \<noteq> []" "\<not> isWhiteSpace (hd line)"
  shows "takeWhile isWhiteSpace (ws @ line @ rest) = ws"
proof -
  have "takeWhile isWhiteSpace (line @ rest) = []"
    using assms(2,3) by (cases line) auto
  then show ?thesis using assms(1) by (simp add: takeWhile_append2 list_all_iff)
qed

lemma search_marked_line:
  assumes "markedLine marker stop pre m ws line rest"
  shows "searchFirst (matchAfterMarker marker stop) (pre @ m @ ws @ line @ rest) = Some line"
proof -
  have a: "\<not> occursCI marker (pre @ butlast m)" "map asciiUpper m = map asciiUpper marker"
    "list_all isWhiteSpace ws" "line \<noteq> []" "\<not> isWhiteSpace (hd line)"
    "list_all (\<lambda>c. \<not> stop c) line" "rest = [] \<or> stop (hd rest)"
    using assms by (simp_all add: markedLine_def)
  have len: "length m = length marker" using a(2) by (metis length_map)
  let ?x = "ws @ line @ rest"
  have grp: "captureGroup stop (drop (length ws) ?x) = Some line"
    using captureGroup_line[OF a(4) a(6) a(7)] by simp
  have here: "matchAfterMarker marker stop (m @ ?x) = Some line"
    using stripPrefixCI_same[OF a(2), of ?x] white_space_run[OF a(3) a(4) a(5), of rest]
      backtrackSpace_first[OF grp]
    by (simp add: matchAfterMarker_def)
  show ?thesis
  proof (cases "m = []")
    case True
    then have "pre @ butlast m = pre" by simp
    then have "\<not> occursCI marker (pre @ [])" using a(1) by simp
    from searchFirst_skip[OF this, of stop "m @ ?x"] len True
    have "searchFirst (matchAfterMarker marker stop) (pre @ m @ ?x)
            = searchFirst (matchAfterMarker marker stop) (m @ ?x)" by simp
    then show ?thesis using searchFirst_here[of "matchAfterMarker marker stop" "m @ ws @ line @ rest" line, OF here] by simp
  next
    case False
    then have m: "m = butlast m @ [last m]" by simp
    have "length marker \<le> Suc (length (butlast m))" using len False by simp
    from searchFirst_skip[OF a(1) this, of stop "[last m] @ ?x"]
    have "searchFirst (matchAfterMarker marker stop) (pre @ (butlast m @ [last m]) @ ?x)
            = searchFirst (matchAfterMarker marker stop) ((butlast m @ [last m]) @ ?x)" by simp
    then have "searchFirst (matchAfterMarker marker stop) (pre @ m @ ?x)
            = searchFirst (matchAfterMarker marker stop) (m @ ?x)"
      using m by simp
    then show ?thesis using searchFirst_here[of "matchAfterMarker marker stop" "m @ ws @ line @ rest" line, OF here] by simp
  qed
qed

lemma marked_line_nonempty: "markedLine marker stop pre m ws line rest \<Longrightarrow> line \<noteq> []"
  by (simp add: markedLine_def)

lemma skills_absent: "\<not> occursCI ''Required Skills:'' s \<Longrightarrow> extractRequiredSkills s = []"
  by (simp add: extractRequiredSkills_def skillsMatch_def searchFirst_absent)

lemma summary_absent: "\<not> occursCI ''Job Summary:'' s \<Longrightarrow> extractJobSummary s = []"
  by (simp add: extractJobSummary_def summaryMatch_def searchFirst_absent)

lemma skills_of_marked_line:
  assumes "markedLine ''Required Skills:'' isNewline pre m ws line rest"
  shows "extractRequiredSkills (pre @ m @ ws @ line @ rest)
           = filter (\<lambda>skill. 0 < length skill \<and> length skill < 50)
               (map trim (splitChar CHR '','' line))"
  using search_marked_line[OF assms] marked_line_nonempty[OF assms]
  by (simp add: extractRequiredSkills_def skillsMatch_def)

lemma skills_example: "extractRequiredSkills ''Required Skills: Python, SQL'' = [''Python'', ''SQL'']"
  by code_simp

lemma summary_points_example:
  "extractJobSummary ''Job Summary: Point1: Build APIs Point2: Write tests''
     = [''Build APIs'', ''Write tests'']"
  by code_simp

text \<open>
  Two filters of the extractions. The skills extraction drops the items of the
  line that are empty or have 50 characters or more, and the sentence fallback of
  the summary extraction drops the sentences of 10 characters or fewer: of the
  three items \<open>Python\<close>, fifty letters \<open>x\<close> and \<open>SQL\<close> only the first and the
  last are returned, and of the two sentences \<open>Great job\<close> and \<open>We build software
  for banks\<close> only the second.
\<close>

lemma length_filters_example:
  "extractRequiredSkills (''Required Skills: Python, '' @ longSkill @ '', SQL'') = [''Python'', ''SQL'']
   \<and> map trim (splitChar CHR '','' (''Python, '' @ longSkill @ '', SQL''))
       = [''Python'', longSkill, ''SQL'']
   \<and> extractJobSummary ''Job Summary: Great job. We build software for banks.''
       = [''We build software for banks'']
   \<and> map trim (splitRuns isSentenceEnd ''Great job. We build software for banks.'')
       = [''Great job'', ''We build software for banks'', []]"
proof -
  have c1: "extractRequiredSkills (''Required Skills: Python, '' @ longSkill @ '', SQL'')
              = [''Python'', ''SQL'']"
    by code_simp
  have c2: "map trim (splitChar CHR '','' (''Python, '' @ longSkill @ '', SQL''))
              = [''Python'', longSkill, ''SQL'']"
    by code_simp
  have c3: "extractJobSummary ''Job Summary: Great job. We build software for banks.''
              = [''We build software for banks'']"
    by code_simp
  have c4: "map trim (splitRuns isSentenceEnd ''Great job. We build software for banks.'')
              = [''Great job'', ''We build software for banks'', []]"
    by code_simp
  show ?thesis by (intro conjI c1 c2 c3 c4)
qed

text \<open>
  Claim C7 does not hold for a summary block of more than one line. The search for
  \<open>Job Summary:\<close> captures the text up to the end of the line only, so the
  pattern for the \<open>PointN:\<close> markers, which is written to run over line breaks,
  never sees the second line: a summary with \<open>Point1:\<close> on the first line and
  \<open>Point2:\<close> on the second gives the first point alone, although the same pattern
  finds both points in the two lines taken together.
\<close>

theorem summary_first_line_only:
  "summaryMatch twoLineSummary = Some ''Point1: Build APIs''
   \<and> extractJobSummary twoLineSummary = [''Build APIs'']
   \<and> pointMatches (''Point1: Build APIs'' @ lineFeed @ ''Point2: Write tests'')
       = [''Point1: Build APIs'', ''Point2: Write tests'']
   \<and> map (\<lambda>point. trim (removePointMarker point))
         (pointMatches (''Point1: Build APIs'' @ lineFeed @ ''Point2: Write tests''))
       = [''Build APIs'', ''Write tests'']"
proof -
  have c1: "summaryMatch twoLineSummary = Some ''Point1: Build APIs''"
    by code_simp
  have c2: "extractJobSummary twoLineSummary = [''Build APIs'']"
    by code_simp
  have c3: "pointMatches (''Point1: Build APIs'' @ lineFeed @ ''Point2: Write tests'')
              = [''Point1: Build APIs'', ''Point2: Write tests'']"
    by code_simp
  have c4: "map (\<lambda>point. trim (removePointMarker point))
              (pointMatches (''Point1: Build APIs'' @ lineFeed @ ''Point2: Write tests''))
            = [''Build APIs'', ''Write tests'']"
    by code_simp
  show ?thesis by (intro conjI c1 c2 c3 c4)
qed

section \<open>Properties of rendering and of the handlers\<close>

subsection \<open>The document for no matches\<close>

text \<open>
  Claim C9. For a backend response without matches the full formatter and the
  table-only formatter produce the same content: the no-matches document of the
  transformed data, which depends neither on the host nor on the clock.
\<close>

theorem no_matches_same_content:
  assumes "matches data = []"
  shows "content (formatMarkdownResponse env now ts data quota)
           = content (formatTableOnlyMarkdownResponse env2 now2 ts2 data quota)
       \<and> content (formatMarkdownResponse env now ts data quota)
           = generateNoMatchesMarkdown (transformJobData env2 now2 data quota)"
  using assms
  by (simp add: formatMarkdownResponse_def formatTableOnlyMarkdownResponse_def Let_def
      transformJobData_def enumerate_eq_zip)

theorem no_matches_same_content_witness:
  "matches emptyResponse = []
   \<and> content (formatMarkdownResponse exampleEnv 5 6 emptyResponse (Some 9))
       = content (formatTableOnlyMarkdownResponse exampleEnv 7 8 emptyResponse (Some 9))"
proof -
  have h: "matches emptyResponse = []" by (simp add: emptyResponse_def)
  from no_matches_same_content[OF h, of exampleEnv 5 6 "Some 9" exampleEnv 7 8] h
  show ?thesis by (intro conjI) (rule h, erule conjunct1)
qed

subsection \<open>Relative dates\<close>

lemma formatDate_labels:
  assumes "s \<noteq> []" "dateParse env s = Some date" "d = \<bar>now - date\<bar> div msPerDay"
  shows "formatDate env now (Some s) =
     (if d = 0 then ''Today'' else if d = 1 then ''Yesterday''
      else if d < 7 then showInt d @ '' days ago''
      else if d < 30 then showInt (d div 7) @ '' weeks ago''
      else if d < 365 then showInt (d div 30) @ '' months ago''
      else dateToLocaleDateString env date)"
  using assms by (simp add: formatDate_def Let_def)

lemma formatDate_missing:
  "formatDate env now None = ''Recently posted''" "formatDate env now (Some []) = ''Recently posted''"
  by (simp_all add: formatDate_def)

lemma isoDateValue_month13: "isoDateValue ''2025-13-45'' = None"
  by (simp add: isoDateValue_def dateFields_def digitsValue_def digitValue_def)

lemma matchesDateRegex_month13: "matchesDateRegex ''2025-13-45''"
  by (simp add: matchesDateRegex_def isDigit_def)

text \<open>
  Claim C8 fails for a value that cannot be parsed: \<open>new Date\<close> does not throw,
  so the \<open>catch\<close> block that returns \<open>Recently posted\<close> is never entered, and
  the result is the text of an invalid date. The value \<open>2025-13-45\<close> has the form
  of an ISO date and no engine parses it.
\<close>

theorem unparsable_date_label:
  "formatDate env now (Some ''2025-13-45'') = ''Invalid Date''"
  by (simp add: formatDate_def dateParse_def matchesDateRegex_month13 isoDateValue_month13)

subsection \<open>Order of the checks in a handler\<close>

lemma getSessionId_exhausted:
  "checkLimit exhaustedLimiter getSessionId 1000 1000
     = (exhaustedLimiter,
        \<lparr>allowed = False, remaining = 0, resultResetTime = 60900, requestCount = 10,
         limit = 10\<rparr>)"
  by (simp add: checkLimit_def getUserData_def cleanOldRequests_def exhaustedLimiter_def Let_def)

lemma validateInputs_no_arguments:
  "validateInputs env (Some []) = \<lparr>valid = False, errors = [''Resume text is required'']\<rparr>"
  by (simp add: validationOf_def pushErrors_def getProp_def validateRequiredParameters_def
      validateOptionalParameters_def provided_def)

lemma handleCall_denied:
  assumes "\<not> allowed (snd (checkLimit L getSessionId (checkTime t) (getUserDataTime t)))"
  shows "snd (handleCall mode env backendApi L args t)
       = (RateLimitErrorDocument (snd (checkLimit L getSessionId (checkTime t) (getUserDataTime t))), [])"
  using assms by (simp add: handleCall_def Let_def split_beta)

lemma handleCall_no_backend_call:
  assumes "fst (snd (handleCall mode env backendApi L args t)) = RateLimitErrorDocument r
         \<or> fst (snd (handleCall mode env backendApi L args t)) = ValidationErrorDocument es"
  shows "snd (snd (handleCall mode env backendApi L args t)) = []"
  using assms
  by (auto simp: handleCall_def Let_def split_beta split: if_splits option.splits sum.splits)

lemma workerHandleCall_no_backend_call:
  assumes "fst (snd (workerHandleCall mode env backendApi tok W args sid t)) = RateLimitErrorDocument r
         \<or> fst (snd (workerHandleCall mode env backendApi tok W args sid t)) = ValidationErrorDocument es"
  shows "snd (snd (workerHandleCall mode env backendApi tok W args sid t)) = []"
  using assms
  by (auto simp: workerHandleCall_def Let_def split_beta split: if_splits option.splits sum.splits)

text \<open>
  Claim C1 fails on the order of the two checks: the handlers check the rate
  limit first and validate afterwards. A call without resume text, which
  \<open>validateInputs\<close> rejects, made for a session that has used its ten requests,
  returns the rate-limit document. No backend call is made.
\<close>

theorem rate_limit_checked_before_validation:
  "\<not> valid (validateInputs exampleEnv (Some []))
   \<and> handleMatchResumeCall exampleEnv exampleBackend exhaustedLimiter (Some []) exampleTimes
       = (exhaustedLimiter,
          RateLimitErrorDocument
            \<lparr>allowed = False, remaining = 0, resultResetTime = 60900, requestCount = 10,
             limit = 10\<rparr>,
          [])"
  by (simp add: validateInputs_no_arguments handleMatchResumeCall_def handleCall_def
      exampleTimes_def getSessionId_exhausted del: validateInputs.simps)

subsection \<open>The worker creates its limiter per request\<close>

text \<open>
  Claim C10. Every invocation of \<open>fetch\<close> constructs a new server, whose limiter
  has no recorded requests. For a configured limit that is not negative (an unset
  or zero value gives the default 10) the one limit check of the invocation
  returns \<open>allowed = true\<close> with \<open>remaining = limit - 1\<close>, and the result of a tool
  call is never the rate-limit document.
\<close>

theorem worker_never_limits:
  assumes "parseIntValue rawLimit = None \<or> (\<exists>n \<ge> 0. parseIntValue rawLimit = Some n)"
  shows "wRequests (newWorkersJobMatcherServer rawLimit) = Map.empty
       \<and> workerFetchLimitCheck rawLimit sessionId now
           = \<lparr>wAllowed = True, wRemaining = configuredLimit rawLimit - 1,
              wResetTime = Fin (now + 60 * 1000), wTotal = configuredLimit rawLimit\<rparr>
       \<and> fst (workerFetchToolCall rawLimit env backendApi tok ip fwd name args t)
           \<noteq> ToolResult (RateLimitErrorDocument r)"
proof -
  have pos: "0 < configuredLimit rawLimit"
    using assms by (auto simp: configuredLimit_def)
  have chk: "workersCheckLimit (newWorkersJobMatcherServer rawLimit) sid now' =
      ((newWorkersJobMatcherServer rawLimit)\<lparr>wRequests := [sid \<mapsto> [now']]\<rparr>,
       \<lparr>wAllowed = True, wRemaining = configuredLimit rawLimit - 1,
        wResetTime = Fin (now' + 60 * 1000), wTotal = configuredLimit rawLimit\<rparr>)" for sid now'
    using pos
    by (simp add: workersCheckLimit_def recentRequests_def newWorkersJobMatcherServer_def
        newWorkersRateLimiter_def Let_def)
  have a: "wRequests (newWorkersJobMatcherServer rawLimit) = Map.empty"
    by (simp add: newWorkersJobMatcherServer_def newWorkersRateLimiter_def)
  have b: "workerFetchLimitCheck rawLimit sessionId now
           = \<lparr>wAllowed = True, wRemaining = configuredLimit rawLimit - 1,
              wResetTime = Fin (now + 60 * 1000), wTotal = configuredLimit rawLimit\<rparr>"
    by (simp add: workerFetchLimitCheck_def chk)
  have h: "fst (snd (workerHandleCall mode env backendApi tok
              (newWorkersJobMatcherServer rawLimit) args sid t)) \<noteq> RateLimitErrorDocument r"
    for mode sid
    by (simp add: workerHandleCall_def chk Let_def split: option.splits sum.splits)
  have c: "fst (workerFetchToolCall rawLimit env backendApi tok ip fwd name args t)
           \<noteq> ToolResult (RateLimitErrorDocument r)"
    using h by (auto simp: workerFetchToolCall_def Let_def split_beta split: sum.splits)
  show ?thesis using a b c by blast
qed

theorem worker_never_limits_witness:
  "parseIntValue JUndefined = None
   \<and> workerFetchLimitCheck JUndefined ''203.0.113.7'' 5000
       = \<lparr>wAllowed = True, wRemaining = 9, wResetTime = Fin 65000, wTotal = 10\<rparr>"
proof -
  have h: "parseIntValue JUndefined = None \<or> (\<exists>n \<ge> 0. parseIntValue JUndefined = Some n)"
    by simp
  have c: "configuredLimit JUndefined = 10" by (simp add: configuredLimit_def)
  from worker_never_limits[OF h, of "''203.0.113.7''" 5000] c
  show ?thesis by simp
qed

section \<open>Properties of the date parameters and of the match score\<close>

subsection \<open>Date pairs\<close>

lemma toolName_not_inherited: "name \<in> set toolNames \<Longrightarrow> name \<notin> set objectPrototypeKeys"
  by (auto simp: toolNames_def objectPrototypeKeys_def)

text \<open>
  What each of the two validators does for the dates. Schema validation rejects a
  start date without an end date, and an end date without a start date.
\<close>

lemma schema_validation_rejects_single_date:
  assumes "name \<in> set toolNames"
    and "hasDate (getProp params ''start_date'') = Some a"
    and "hasDate (getProp params ''end_date'') = Some b"
    and "a \<noteq> b"
  shows "\<exists>v. validateToolParameters env schema name params = Inr v \<and> \<not> valid v
           \<and> (if a
                then ''When start_date is provided, end_date must also be provided to create a complete date range''
                else ''When end_date is provided, start_date must also be provided to create a complete date range'')
               \<in> set (errors v)"
  using assms toolName_not_inherited[OF assms(1)]
  by (cases a; cases b)
     (simp_all add: validateToolParameters_def dateDependencyErrors_def validationOf_def)

text \<open>Both validators reject a pair whose start is not before its end.\<close>

lemma schema_validation_rejects_order:
  assumes "name \<in> set toolNames"
    and "getProp params ''start_date'' = JStr s" "trim s \<noteq> []"
    and "getProp params ''end_date'' = JStr e" "trim e \<noteq> []"
    and "dateParse env s = Some x" "dateParse env e = Some y" "x \<ge> y"
  shows "\<exists>v. validateToolParameters env schema name params = Inr v \<and> \<not> valid v
           \<and> ''start_date must be before end_date'' \<in> set (errors v)"
proof -
  have "s \<noteq> []" "e \<noteq> []" using assms(3,5) by (auto simp: trim_def)
  then show ?thesis
    using assms toolName_not_inherited[OF assms(1)]
    by (simp add: validateToolParameters_def dateDependencyErrors_def validationOf_def)
qed

lemma optional_valid_iff:
  "valid (validateOptionalParameters env args) = (errors (validateOptionalParameters env args) = [])"
  by (simp add: validateOptionalParameters_def validationOf_def)

lemma optional_errors_invalid:
  assumes "m \<in> set (errors (validateOptionalParameters env args))"
  shows "\<not> valid (validateInputs env (Some args)) \<and> m \<in> set (errors (validateInputs env (Some args)))"
proof -
  have "errors (validateOptionalParameters env args) \<noteq> []" using assms by auto
  then have "pushErrors (validateOptionalParameters env args) = errors (validateOptionalParameters env args)"
    by (simp add: pushErrors_def optional_valid_iff)
  then show ?thesis using assms by (auto simp: validationOf_def)
qed

lemma date_range_valid_iff:
  "valid (validateDateRange env a b) = (errors (validateDateRange env a b) = [])"
  by (simp add: validateDateRange_def validationOf_def Let_def)

lemma date_range_errors_kept:
  assumes "getProp args ''start_date'' = JStr s" "s \<noteq> []"
    and "getProp args ''end_date'' = JStr e" "e \<noteq> []"
    and "m \<in> set (errors (validateDateRange env (JStr s) (JStr e)))"
  shows "m \<in> set (errors (validateOptionalParameters env args))"
proof -
  have "errors (validateDateRange env (JStr s) (JStr e)) \<noteq> []"
    using assms(5) by auto
  then have pe: "pushErrors (validateDateRange env (JStr s) (JStr e))
                   = errors (validateDateRange env (JStr s) (JStr e))"
    by (simp add: pushErrors_def date_range_valid_iff)
  show ?thesis
    using assms pe by (simp add: validateOptionalParameters_def validationOf_def)
qed

lemma input_validation_rejects_order:
  assumes "getProp args ''start_date'' = JStr s" "s \<noteq> []"
    and "getProp args ''end_date'' = JStr e" "e \<noteq> []"
    and "dateParse env s = Some x" "dateParse env e = Some y" "x \<ge> y"
  shows "\<not> valid (validateInputs env (Some args))
       \<and> ''Start date must be before end date'' \<in> set (errors (validateInputs env (Some args)))"
proof (rule optional_errors_invalid, rule date_range_errors_kept[OF assms(1-4)])
  show "''Start date must be before end date'' \<in> set (errors (validateDateRange env (JStr s) (JStr e)))"
    using assms(2,4-7) by (simp add: validateDateRange_def validationOf_def Let_def)
qed

text \<open>Input validation rejects a pair of dates more than 365 days apart.\<close>

lemma input_validation_rejects_long_range:
  assumes "getProp args ''start_date'' = JStr s" "s \<noteq> []"
    and "getProp args ''end_date'' = JStr e" "e \<noteq> []"
    and "dateParse env s = Some x" "dateParse env e = Some y" "y - x > 365 * msPerDay"
  shows "\<not> valid (validateInputs env (Some args))
       \<and> ''Date range is too long (maximum 1 year)'' \<in> set (errors (validateInputs env (Some args)))"
proof (rule optional_errors_invalid, rule date_range_errors_kept[OF assms(1-4)])
  show "''Date range is too long (maximum 1 year)''
          \<in> set (errors (validateDateRange env (JStr s) (JStr e)))"
    using assms(2,4-7) by (simp add: validateDateRange_def validationOf_def Let_def)
qed

lemma sampleResume_accepted:
  "validateResumeText (JStr sampleResume) = \<lparr>valid = True, errors = []\<rparr>"
proof -
  have h3: "length sampleResume \<le> 15000" by code_simp
  have h4: "500 \<le> length (normalizeText sampleResume)" by code_simp
  have h5: "10 \<le> length (whitespaceDelimitedWords sampleResume)" by code_simp
  have h6: "longestRun sampleResume < 21" by code_simp
  show ?thesis by (rule good_resume_accepted[OF h3 h4 h5 h6])
qed

lemma sampleResume_nonempty: "sampleResume \<noteq> []"
  by code_simp

lemma startDateOnly_props:
  "getProp startDateOnly ''resume_text'' = JStr sampleResume"
  "getProp startDateOnly ''start_date'' = JStr ''2025-01-15''"
  "getProp startDateOnly ''end_date'' = JUndefined"
  "getProp startDateOnly ''user_experience'' = JUndefined"
  "getProp startDateOnly ''keywords'' = JUndefined"
  "getProp startDateOnly ''location'' = JUndefined"
  "getProp startDateOnly ''page'' = JUndefined"
  "getProp startDateOnly ''sort_by'' = JUndefined"
  by (simp_all add: startDateOnly_def getProp_def)

lemma start_date_valid:
  "validateDate exampleEnv (JStr ''2025-01-15'') ''start_date'' = \<lparr>valid = True, errors = []\<rparr>"
  by code_simp

lemma startDateOnly_accepted:
  "validateInputs exampleEnv (Some startDateOnly) = \<lparr>valid = True, errors = []\<rparr>"
  using sampleResume_nonempty
  by (simp add: startDateOnly_props validateRequiredParameters_def
      validateOptionalParameters_def provided_def pushErrors_def validationOf_def
      sampleResume_accepted start_date_valid del: validateResumeText.simps validateDate.simps)

text \<open>
  Claim C5 fails for input validation on its first part: \<open>validateInputs\<close> has no
  check that the two dates come together. Arguments with a valid resume and a
  start date only pass it, and the stdio handler, which runs no other validation,
  calls the backend with them. Schema validation, which only the HTTP and worker
  front-ends run, rejects the same arguments.
\<close>

theorem single_date_passes_input_validation:
  "validateInputs exampleEnv (Some startDateOnly) = \<lparr>valid = True, errors = []\<rparr>
   \<and> snd (snd (handleMatchResumeCall exampleEnv exampleBackend (newRateLimiter 10 60000)
                 (Some startDateOnly) exampleTimes)) = [startDateOnly]
   \<and> (\<exists>v. validateToolParameters exampleEnv inputSchema ''match_resume'' startDateOnly = Inr v
          \<and> ''When start_date is provided, end_date must also be provided to create a complete date range''
              \<in> set (errors v))"
proof -
  have lim: "allowed (snd (checkLimit (newRateLimiter 10 60000) getSessionId 1000 1000))"
    by (simp add: checkLimit_def getUserData_def cleanOldRequests_def newRateLimiter_def Let_def)
  have calls: "snd (snd (handleMatchResumeCall exampleEnv exampleBackend (newRateLimiter 10 60000)
                 (Some startDateOnly) exampleTimes)) = [startDateOnly]"
    using lim
    by (simp add: handleMatchResumeCall_def handleCall_def exampleTimes_def split_beta Let_def
        startDateOnly_accepted exampleBackend_def del: validateInputs.simps)
  have name: "''match_resume'' \<in> set toolNames" by (simp add: toolNames_def)
  have hs: "hasDate (getProp startDateOnly ''start_date'') = Some True"
    by (simp add: startDateOnly_props trim_def isWhiteSpace_def)
  have he: "hasDate (getProp startDateOnly ''end_date'') = Some False"
    by (simp add: startDateOnly_props)
  from schema_validation_rejects_single_date[OF name hs he, of exampleEnv inputSchema]
  have schema: "\<exists>v. validateToolParameters exampleEnv inputSchema ''match_resume'' startDateOnly = Inr v
          \<and> ''When start_date is provided, end_date must also be provided to create a complete date range''
              \<in> set (errors v)"
    by auto
  show ?thesis using startDateOnly_accepted calls schema by blast
qed

subsection \<open>Match percentage and indicator\<close>

lemma matchPercent_example: "matchPercent (Some (roundToDouble (873 / 1000))) = 87"
  by code_simp

lemma matchPercent_half: "matchPercent (Some (1 / 2)) = 50"
  by code_simp

lemma matchPercent_absent: "matchPercent None = 0"
  by code_simp

lemma matchPercent_zero: "matchPercent (Some 0) = 0"
  by code_simp

lemma transformJob_match: "jMatch (transformJob env now index job) = matchPercent (similarity_score job)"
  by (simp add: transformJob_def)

lemma tableMatchColor_bands:
  "tableMatchColor m =
     (if m \<ge> 70 then greenCircle else if m \<ge> 40 then yellowCircle else orangeCircle)"
  by (simp add: tableMatchColor_def)

text \<open>
  Claim C6 holds for the table-only document and fails in the full document,
  where two of the indicator literals are the replacement character U+FFFD: for
  the band from 40 to 69 in the index table, and for the band from 70 in the job
  sections. A match of score one half has the percentage 50 and gets the yellow
  circle in the table-only document and U+FFFD in the index table of the full
  document.
\<close>

theorem full_document_indicator:
  "jMatch (transformJob env now 0 halfMatch) = 50
   \<and> tableMatchColor 50 = yellowCircle
   \<and> fullIndexMatchColor 50 = replacementCharacter
   \<and> detailMatchColor 80 = replacementCharacter
   \<and> replacementCharacter \<noteq> yellowCircle \<and> replacementCharacter \<noteq> greenCircle
   \<and> fullIndexRow 0 (transformJob env now 0 halfMatch)
       = ''| 1 | '' @ emojiOffice @ '' **Acme** | Engineer | '' @ replacementCharacter
         @ '' **50%** | Berlin | 3 years | ['' @ replacementCharacter
         @ '' **Apply**](https://jobs.example/42) |'' @ nl"
proof -
  have m: "jMatch (transformJob env now 0 halfMatch) = 50"
    by (simp add: transformJob_match halfMatch_def matchPercent_half)
  have f: "jCompany (transformJob env now 0 halfMatch) = ''Acme''"
    "jTitle (transformJob env now 0 halfMatch) = ''Engineer''"
    "jLocation (transformJob env now 0 halfMatch) = ''Berlin''"
    "jExperience (transformJob env now 0 halfMatch) = ''3 years''"
    "jUrl (transformJob env now 0 halfMatch) = ''https://jobs.example/42''"
    by (simp_all add: transformJob_def halfMatch_def orElse_def showInt_def showDigits.simps
        digitChar_def)
  have one: "showNat (Suc 0) = ''1''" "showInt 50 = ''50''"
    by (simp_all add: showNat_def showInt_def showDigits.simps digitChar_def)
  have row: "fullIndexRow 0 (transformJob env now 0 halfMatch)
       = ''| 1 | '' @ emojiOffice @ '' **Acme** | Engineer | '' @ replacementCharacter
         @ '' **50%** | Berlin | 3 years | ['' @ replacementCharacter
         @ '' **Apply**](https://jobs.example/42) |'' @ nl"
    by (simp add: fullIndexRow_def m f one fullIndexMatchColor_def)
  have c: "tableMatchColor 50 = yellowCircle" "fullIndexMatchColor 50 = replacementCharacter"
    "detailMatchColor 80 = replacementCharacter"
    by (simp_all add: tableMatchColor_def fullIndexMatchColor_def detailMatchColor_def)
  have d: "replacementCharacter \<noteq> yellowCircle" "replacementCharacter \<noteq> greenCircle"
    by (simp_all add: replacementCharacter_def yellowCircle_def greenCircle_def)
  show ?thesis by (intro conjI m c d row)
qed

end
